theory Spec2Isabelle
  imports Complex_Main "HOL-Library.Sublist" "HOL-Library.Multiset" "HOL-Library.Word"
begin

section \<open>BloomWatch: the HLS tile pipeline\<close>

text \<open>
  A shallow embedding of the tile-fetch pipeline of
  \<^verbatim>\<open>innovators_crew_bloomwatch_reflex.py\<close> (the functions \<^verbatim>\<open>_safe_float\<close>,
  \<^verbatim>\<open>_geocode_address\<close>, \<^verbatim>\<open>_deg_buffer\<close>, \<^verbatim>\<open>_search_hls_items\<close>,
  \<^verbatim>\<open>_bands_for_collection\<close> and \<^verbatim>\<open>State.fetch_tile\<close>) and of the three helper
  methods of \<^verbatim>\<open>api/hls.py\<close> (\<^verbatim>\<open>HLSClient.deg_buffer\<close>,
  \<^verbatim>\<open>HLSClient.search_hls_items\<close>, \<^verbatim>\<open>HLSClient.bands_for_collection\<close>).

  Naming: a module-level function loses its leading underscore (an Isabelle name starts
  with a letter); a method of \<^verbatim>\<open>HLSClient\<close> is prefixed with \<open>HLSClient_\<close>.

  Conventions of the model:
  \<^item> Python floats are real numbers (no rounding, no NaN, no infinity);
  \<^item> everything the code obtains from outside (the network, the clock, the environment,
    the raster library, the file system, Python's own parsers and formatters) is a field
    of the record \<open>env\<close>, so a theorem about all environments covers every behaviour
    of the outside world;
  \<^item> an exception that the code does not catch is a value of the result.
\<close>

subsection \<open>Metres to degrees\<close>

definition radians :: "real \<Rightarrow> real" where
  "radians d = d * (pi / 180)"

text \<open>\<^verbatim>\<open>_deg_buffer\<close> (monolith, lines 127-131).\<close>

definition deg_buffer :: "real \<Rightarrow> real \<Rightarrow> real \<times> real" where
  "deg_buffer lat meters =
     (let dlat = meters / 111320;
          dlon = meters / (111320 * max (1 / 10) (cos (radians lat)))
      in (dlat, dlon))"

text \<open>
  \<^verbatim>\<open>HLSClient.deg_buffer\<close> (api/hls.py, lines 45-51). The divisor is \<open>\<bar>cos\<bar>\<close> with no
  floor. The model is for latitudes other than \<open>\<plusminus>90\<close> degrees. There the exact
  cosine vanishes and the model has no value (\<open>None\<close>), while the float cosine is about
  6.1e-17, so that Python divides, raises nothing and returns a width of the order of
  1e15 degrees; no statement below is about that latitude.
\<close>

definition HLSClient_deg_buffer :: "real \<Rightarrow> real \<Rightarrow> (real \<times> real) option" where
  "HLSClient_deg_buffer lat meters =
     (let lat_deg_per_m = 1 / 111320 in
      if 111320 * \<bar>cos (radians lat)\<bar> = 0 then None
      else
        let lon_deg_per_m = 1 / (111320 * \<bar>cos (radians lat)\<bar>);
            lat_buf = meters * lat_deg_per_m;
            lon_buf = meters * lon_deg_per_m
        in Some (lat_buf, lon_buf))"

subsection \<open>Band taxonomy\<close>

text \<open>\<^verbatim>\<open>S30_BANDS\<close>, \<^verbatim>\<open>L30_BANDS\<close> and \<^verbatim>\<open>_bands_for_collection\<close> (monolith, lines 232-239).\<close>

definition S30_BANDS :: "string list" where
  "S30_BANDS = [''B02'', ''B03'', ''B04'', ''B8A'', ''B11'', ''B12'']"

definition L30_BANDS :: "string list" where
  "L30_BANDS = [''B02'', ''B03'', ''B04'', ''B05'', ''B06'', ''B07'']"

definition bands_for_collection :: "string \<Rightarrow> string list" where
  "bands_for_collection coll_id =
     (if prefix ''HLSS30'' coll_id then S30_BANDS else L30_BANDS)"

text \<open>
  \<^verbatim>\<open>HLSClient.bands_for_collection\<close> (api/hls.py, lines 108-114): "Get available bands for
  a collection". Python's \<^verbatim>\<open>x in s\<close> on strings is the contiguous-substring test.
\<close>

definition HLSClient_bands_for_collection :: "string \<Rightarrow> string list" where
  "HLSClient_bands_for_collection collection_id =
     (if sublist ''HLSL30'' collection_id then
        [''B01'', ''B02'', ''B03'', ''B04'', ''B05'', ''B06'', ''B07'', ''B08'', ''B09'',
         ''B10'', ''B11'']
      else if sublist ''HLSS30'' collection_id then
        [''B01'', ''B02'', ''B03'', ''B04'', ''B05'', ''B06'', ''B07'', ''B08'', ''B8A'',
         ''B09'', ''B10'', ''B11'', ''B12'']
      else [])"

subsection \<open>Python helpers\<close>

text \<open>
  Strings are byte lists (UTF-8). \<^verbatim>\<open>str.strip()\<close> removes leading and trailing
  whitespace, Unicode whitespace included; it is a field of the environment below
  (\<open>py_strip\<close>). On a text of ASCII characters it is \<open>ascii_strip\<close>, which removes the
  characters 9-13 and 28-32; the sample world uses it.
\<close>

definition is_space :: "char \<Rightarrow> bool" where
  "is_space c = (let n = (of_char c :: nat) in (9 \<le> n \<and> n \<le> 13) \<or> (28 \<le> n \<and> n \<le> 32))"

definition ascii_strip :: "string \<Rightarrow> string" where
  "ascii_strip s = rev (dropWhile is_space (rev (dropWhile is_space s)))"

text \<open>\<^verbatim>\<open>str(n)\<close> of a non-negative integer.\<close>

fun str_nat :: "nat \<Rightarrow> string" where
  "str_nat n =
     (if n < 10 then [''0123456789'' ! n]
      else str_nat (n div 10) @ [''0123456789'' ! (n mod 10)])"

declare str_nat.simps [simp del]

text \<open>\<^verbatim>\<open>xs[:n]\<close>: a negative bound counts from the end.\<close>

definition py_take :: "int \<Rightarrow> 'a list \<Rightarrow> 'a list" where
  "py_take n xs = (if 0 \<le> n then take (nat n) xs else take (length xs - nat (- n)) xs)"

text \<open>\<^verbatim>\<open>os.path.basename\<close>: what follows the last slash.\<close>

definition basename :: "string \<Rightarrow> string" where
  "basename p = rev (takeWhile (\<lambda>c. c \<noteq> CHR ''/'') (rev p))"

text \<open>\<^verbatim>\<open>s.replace("Z", "+00:00")\<close>.\<close>

definition replace_Z :: "string \<Rightarrow> string" where
  "replace_Z s = concat (map (\<lambda>c. if c = CHR ''Z'' then ''+00:00'' else [c]) s)"

datatype py_exn = ValueError | OverflowError | TypeError | OSError | RasterioError

subsection \<open>Dates and times\<close>

text \<open>
  A \<^verbatim>\<open>datetime\<close>: the proleptic Gregorian ordinal of its date (\<^verbatim>\<open>toordinal()\<close>, 1 for
  0001-01-01, 3652059 for 9999-12-31), the microseconds since midnight, and the UTC
  offset in microseconds of its \<^verbatim>\<open>tzinfo\<close> (\<open>None\<close> for a naive value).
\<close>

record pydatetime =
  ordinal :: int
  tod_us :: int
  utcoffset :: "int option"

definition MAXORDINAL :: int where
  "MAXORDINAL = 3652059"

text \<open>
  \<^verbatim>\<open>dt + timedelta(days=n)\<close>: the date moves by \<open>n\<close> days, the time of day and the
  \<^verbatim>\<open>tzinfo\<close> stay; \<^verbatim>\<open>OverflowError\<close> (here \<open>None\<close>) outside 0001-01-01 .. 9999-12-31.
\<close>

definition plus_days :: "pydatetime \<Rightarrow> int \<Rightarrow> pydatetime option" where
  "plus_days dt n =
     (if 1 \<le> ordinal dt + n \<and> ordinal dt + n \<le> MAXORDINAL
      then Some (dt\<lparr>ordinal := ordinal dt + n\<rparr>) else None)"

text \<open>The instant of an aware value, in microseconds: what aware subtraction compares.\<close>

definition utc_us :: "pydatetime \<Rightarrow> int" where
  "utc_us dt =
     ordinal dt * 86400000000 + tod_us dt - (case utcoffset dt of None \<Rightarrow> 0 | Some off \<Rightarrow> off)"

text \<open>\<^verbatim>\<open>if dt.tzinfo is None: dt = dt.replace(tzinfo=timezone.utc)\<close>.\<close>

definition as_utc :: "pydatetime \<Rightarrow> pydatetime" where
  "as_utc dt = (case utcoffset dt of None \<Rightarrow> dt\<lparr>utcoffset := Some 0\<rparr> | Some off \<Rightarrow> dt)"

text \<open>\<^verbatim>\<open>datetime.max.replace(tzinfo=timezone.utc)\<close>: 9999-12-31T23:59:59.999999+00:00.\<close>

definition DATETIME_MAX_UTC :: pydatetime where
  "DATETIME_MAX_UTC = \<lparr>ordinal = MAXORDINAL, tod_us = 86399999999, utcoffset = Some 0\<rparr>"

subsection \<open>Catalog items, requests and the outside world\<close>

text \<open>
  A STAC feature as the pipeline reads it: \<^verbatim>\<open>it.get("collection", "")\<close>,
  \<^verbatim>\<open>properties.datetime\<close> (\<open>None\<close> when the key or \<^verbatim>\<open>properties\<close> is missing), and
  \<^verbatim>\<open>assets\<close>, band code to asset. An asset that Python finds falsy (an empty
  dictionary) is an asset that is not in the list. The JSON is taken to be well typed (a
  collection is a string, an asset a dictionary).
\<close>

record asset =
  href :: "string option"
  alternates :: "string option list"

record item =
  collection :: string
  datetime_prop :: "string option"
  assets :: "(string \<times> asset) list"

text \<open>An entry of the CMR granule feed: \<^verbatim>\<open>time_start\<close> and \<^verbatim>\<open>dataset_id\<close>.\<close>

record granule =
  time_start :: "string option"
  dataset_id :: string

text \<open>A bounding box: west, south, east, north.\<close>

type_synonym bbox = "real \<times> real \<times> real \<times> real"

text \<open>
  The requests the code sends. A search request carries its place (the point as
  longitude, latitude, or a box), its time window as the ordinals of its first and last
  day, and its limit; a probe and a raster read carry the asset reference.
\<close>

datatype call =
    Geocode string
  | PostIntersects real real int int int
  | PostBbox bbox int int int
  | GetItems string bbox int int int
  | GetGranules bbox int int
  | Probe "string option"
  | RasterOpen "string option" bbox

text \<open>One band as read from a raster window: \<^verbatim>\<open>data\<close> (row-major) and \<^verbatim>\<open>trans\<close>.\<close>

record band =
  dtype :: string
  height :: nat
  width :: nat
  pixels :: "real list"
  trans :: "real list"

text \<open>
  \<^verbatim>\<open>meta_template\<close> (lines 746-756); the constant entries \<^verbatim>\<open>driver\<close>, \<^verbatim>\<open>crs\<close>,
  \<^verbatim>\<open>compress\<close> and \<^verbatim>\<open>predictor\<close> are left out.
\<close>

record meta =
  m_dtype :: string
  m_count :: nat
  m_height :: nat
  m_width :: nat
  m_transform :: "real list"

text \<open>
  The outside world. A network oracle takes the number of requests the run has sent so
  far and the request; \<open>None\<close> is an exception of the call (transport failure, error
  status raised by \<^verbatim>\<open>raise_for_status\<close>, a body that does not parse). \<open>py_float\<close> is
  \<^verbatim>\<open>float(s)\<close> (\<open>None\<close> when it raises) and \<open>py_strip\<close> is \<^verbatim>\<open>s.strip()\<close>, which removes
  the whitespace of Unicode at both ends.
\<close>

record env =
  py_float :: "string \<Rightarrow> real option"
  py_strip :: "string \<Rightarrow> string"
  fmt_6f :: "real \<Rightarrow> string"
  fmt_5f :: "real \<Rightarrow> string"
  fromisoformat :: "string \<Rightarrow> pydatetime option"
  today :: int
  now_utc :: pydatetime
  http_geocode :: "string \<Rightarrow> (string \<times> string) list option"
  http_search :: "nat \<Rightarrow> call \<Rightarrow> item list option"
  http_granules :: "nat \<Rightarrow> call \<Rightarrow> granule list option"
  have_rasterio :: bool
  earthdata_token :: "string option"
  http_probe :: "nat \<Rightarrow> string option \<Rightarrow> int option"
  raster_read :: "nat \<Rightarrow> string option \<Rightarrow> bbox \<Rightarrow> band option"
  makedirs_ok :: bool
  tif_write_ok :: "string \<Rightarrow> meta \<Rightarrow> band list \<Rightarrow> bool"
  png_save_ok :: "string \<Rightarrow> 8 word list list \<Rightarrow> bool"

subsection \<open>Locator\<close>

text \<open>\<^verbatim>\<open>_safe_float\<close> (lines 102-106); a state field is a string, never \<^verbatim>\<open>None\<close>.\<close>

definition safe_float :: "env \<Rightarrow> string \<Rightarrow> real option" where
  "safe_float env s = (if s \<noteq> [] then py_float env s else None)"

text \<open>
  \<^verbatim>\<open>_geocode_address\<close> (lines 116-125): the first result's \<^verbatim>\<open>lat\<close> and \<^verbatim>\<open>lon\<close>, parsed
  by \<^verbatim>\<open>float\<close>; every exception ends in \<^verbatim>\<open>None\<close>.
\<close>

definition geocode_address :: "env \<Rightarrow> string \<Rightarrow> (real \<times> real) option" where
  "geocode_address env q =
     (case http_geocode env q of
        None \<Rightarrow> None
      | Some [] \<Rightarrow> None
      | Some ((la, lo) # rest) \<Rightarrow>
          (case py_float env la of
             None \<Rightarrow> None
           | Some lat \<Rightarrow>
               (case py_float env lo of None \<Rightarrow> None | Some lon \<Rightarrow> Some (lat, lon))))"

subsection \<open>Catalog search\<close>

definition HLS_COLLECTIONS :: "string list" where
  "HLS_COLLECTIONS = [''HLSS30.v2.0'', ''HLSL30.v2.0'']"

text \<open>
  The window of \<^verbatim>\<open>_search_hls_items\<close> (lines 135-140): \<^verbatim>\<open>fromisoformat\<close> raises
  \<^verbatim>\<open>ValueError\<close> on a string it cannot parse, the two shifts by 15 days raise
  \<^verbatim>\<open>OverflowError\<close> at the ends of the calendar, and the end is clamped to today.
\<close>

definition search_window :: "env \<Rightarrow> string \<Rightarrow> py_exn + int \<times> int" where
  "search_window env dt =
     (case fromisoformat env dt of
        None \<Rightarrow> Inl ValueError
      | Some t0 \<Rightarrow>
          (case plus_days t0 (- 15) of
             None \<Rightarrow> Inl OverflowError
           | Some t_start \<Rightarrow>
               (case plus_days t0 15 of
                  None \<Rightarrow> Inl OverflowError
                | Some t_end \<Rightarrow>
                    let start_date = ordinal t_start;
                        end_date = ordinal t_end;
                        end_date = (if end_date > today env then today env else end_date)
                    in Inr (start_date, end_date))))"

text \<open>
  Stages 1 and 2 return their features under \<^verbatim>\<open>if feats:\<close> (lines 159-166 and 169-185):
  an exception of the request and an empty list both fall through to the next stage.
\<close>

definition truthy_features :: "item list option \<Rightarrow> item list option" where
  "truthy_features r =
     (case r of None \<Rightarrow> None | Some feats \<Rightarrow> if feats \<noteq> [] then Some feats else None)"

text \<open>The box of stages 2 to 4 (lines 170-172 and 190-192).\<close>

definition small_box :: "real \<Rightarrow> real \<Rightarrow> bbox" where
  "small_box lat lon =
     (case deg_buffer lat 200 of
        (dlat, dlon) \<Rightarrow> (lon - dlon, lat - dlat, lon + dlon, lat + dlat))"

text \<open>
  Stage 3, the loop of lines 193-202: one GET per collection, the features concatenated;
  \<open>None\<close> when a request raises. \<open>n\<close> counts the requests sent before.
\<close>

fun per_collection ::
  "env \<Rightarrow> nat \<Rightarrow> bbox \<Rightarrow> int \<times> int \<Rightarrow> int \<Rightarrow> string list \<Rightarrow> item list \<Rightarrow>
   call list \<times> item list option" where
  "per_collection env n box win limit [] feats_all = ([], Some feats_all)"
| "per_collection env n box win limit (coll # colls) feats_all =
     (let rq = GetItems coll box (fst win) (snd win) limit in
      case http_search env n rq of
        None \<Rightarrow> ([rq], None)
      | Some feats \<Rightarrow>
          (case per_collection env (Suc n) box win limit colls (feats_all @ feats) of
             (cs, r) \<Rightarrow> (rq # cs, r)))"

text \<open>
  Stage 4 (lines 207-230): the granule search, run inside the \<^verbatim>\<open>except\<close> block of
  stage 3. Hits become features with a collection and a timestamp and no asset.
\<close>

definition fabricate :: "granule \<Rightarrow> item" where
  "fabricate g =
     \<lparr>collection = (if sublist ''HLSS30'' (dataset_id g) then ''HLSS30.v2.0'' else ''HLSL30.v2.0''),
      datetime_prop = Some (case time_start g of None \<Rightarrow> [] | Some t \<Rightarrow> t),
      assets = []\<rparr>"

definition granule_fallback :: "env \<Rightarrow> nat \<Rightarrow> call \<Rightarrow> int \<Rightarrow> item list" where
  "granule_fallback env n rq limit =
     (case http_granules env n rq of
        None \<Rightarrow> []
      | Some hits \<Rightarrow> if hits \<noteq> [] then map fabricate (py_take limit hits) else [])"

text \<open>
  Stages 3 and 4 as they are nested in the source: the result of stage 3 is returned
  whenever no request of it raised (\<^verbatim>\<open>return feats_all\<close>, line 203), and stage 4 runs only
  in the handler of an exception of stage 3.
\<close>

definition stage3_4 ::
  "env \<Rightarrow> nat \<Rightarrow> bbox \<Rightarrow> int \<times> int \<Rightarrow> int \<Rightarrow> call list \<times> item list" where
  "stage3_4 env n box win limit =
     (case per_collection env n box win limit HLS_COLLECTIONS [] of
        (cs, Some feats_all) \<Rightarrow> (cs, feats_all)
      | (cs, None) \<Rightarrow>
          (let rq = GetGranules box (fst win) (snd win)
           in (cs @ [rq], granule_fallback env (n + length cs) rq limit)))"

text \<open>
  \<^verbatim>\<open>_search_hls_items\<close> (lines 133-230). The result is the requests sent, in order, and
  either the exception raised or the features returned. \<open>n\<close> counts the requests the run
  sent before the search.
\<close>

definition search_hls_items ::
  "env \<Rightarrow> nat \<Rightarrow> real \<Rightarrow> real \<Rightarrow> string \<Rightarrow> int \<Rightarrow> call list \<times> (py_exn + item list)" where
  "search_hls_items env n lat lon dt limit =
     (case search_window env dt of
        Inl e \<Rightarrow> ([], Inl e)
      | Inr (start_date, end_date) \<Rightarrow>
          if start_date > end_date then ([], Inr [])
          else
            let rq1 = PostIntersects lon lat start_date end_date limit in
            case truthy_features (http_search env n rq1) of
              Some feats \<Rightarrow> ([rq1], Inr feats)
            | None \<Rightarrow>
                let box = small_box lat lon;
                    rq2 = PostBbox box start_date end_date limit
                in case truthy_features (http_search env (n + 1) rq2) of
                     Some feats \<Rightarrow> ([rq1, rq2], Inr feats)
                   | None \<Rightarrow>
                       (case stage3_4 env (n + 2) box (start_date, end_date) limit of
                          (cs, feats) \<Rightarrow> (rq1 # rq2 # cs, Inr feats)))"

text \<open>The time window that a search request carries.\<close>

fun call_window :: "call \<Rightarrow> (int \<times> int) option" where
  "call_window (PostIntersects lon lat a b limit) = Some (a, b)"
| "call_window (PostBbox box a b limit) = Some (a, b)"
| "call_window (GetItems coll box a b limit) = Some (a, b)"
| "call_window (GetGranules box a b) = Some (a, b)"
| "call_window (Geocode q) = None"
| "call_window (Probe h) = None"
| "call_window (RasterOpen h box) = None"

text \<open>
  \<^verbatim>\<open>HLSClient.search_hls_items\<close> (api/hls.py, lines 53-106): 30 days either side of the
  target, no clamp, one GET per collection, every exception answered by the empty list.
  As \<^const>\<open>HLSClient_deg_buffer\<close>, the model is for latitudes other than \<open>\<plusminus>90\<close> degrees
  (there the code sends its requests with a box of the order of 1e15 degrees).
  A feature is kept when its timestamp is non-empty, parses and is aware (the target is
  aware, and Python refuses to subtract a naive value from it); the key
  \<^verbatim>\<open>_time_delta\<close> that the code stores in the kept feature is paired with it here.
\<close>

definition HLSClient_time_delta :: "env \<Rightarrow> pydatetime \<Rightarrow> item \<Rightarrow> int option" where
  "HLSClient_time_delta env target_dt it =
     (case datetime_prop it of
        None \<Rightarrow> None
      | Some dt_str \<Rightarrow>
          if dt_str = [] then None
          else
            (case fromisoformat env (replace_Z dt_str) of
               None \<Rightarrow> None
             | Some item_dt \<Rightarrow>
                 if utcoffset item_dt = None then None
                 else Some \<bar>utc_us item_dt - utc_us target_dt\<bar>))"

fun HLSClient_collect ::
  "env \<Rightarrow> nat \<Rightarrow> pydatetime \<Rightarrow> bbox \<Rightarrow> int \<times> int \<Rightarrow> int \<Rightarrow> string list \<Rightarrow>
   (int \<times> item) list \<Rightarrow> call list \<times> (int \<times> item) list option" where
  "HLSClient_collect env n target_dt box win limit [] all_items = ([], Some all_items)"
| "HLSClient_collect env n target_dt box win limit (coll # colls) all_items =
     (let rq = GetItems coll box (fst win) (snd win) limit in
      case http_search env n rq of
        None \<Rightarrow> ([rq], None)
      | Some items \<Rightarrow>
          (let kept = concat (map (\<lambda>it. case HLSClient_time_delta env target_dt it of
                                          None \<Rightarrow> [] | Some d \<Rightarrow> [(d, it)]) items)
           in case HLSClient_collect env (Suc n) target_dt box win limit colls (all_items @ kept) of
                (cs, r) \<Rightarrow> (rq # cs, r)))"

definition HLSClient_search_hls_items ::
  "env \<Rightarrow> nat \<Rightarrow> real \<Rightarrow> real \<Rightarrow> string \<Rightarrow> int \<Rightarrow> call list \<times> item list" where
  "HLSClient_search_hls_items env n lat lon dt limit =
     (case HLSClient_deg_buffer lat 10000 of
        None \<Rightarrow> ([], [])
      | Some (lat_buf, lon_buf) \<Rightarrow>
          let bbox = (lon - lon_buf, lat - lat_buf, lon + lon_buf, lat + lat_buf);
              target_dt = (case fromisoformat env dt of
                             Some t \<Rightarrow> t\<lparr>utcoffset := Some 0\<rparr>
                           | None \<Rightarrow> now_utc env)
          in case plus_days target_dt (- 30) of
               None \<Rightarrow> ([], [])
             | Some start_dt \<Rightarrow>
                 (case plus_days target_dt 30 of
                    None \<Rightarrow> ([], [])
                  | Some end_dt \<Rightarrow>
                      (case HLSClient_collect env n target_dt bbox (ordinal start_dt, ordinal end_dt)
                              limit [''HLSL30.v2.0'', ''HLSS30.v2.0''] [] of
                         (cs, None) \<Rightarrow> (cs, [])
                       | (cs, Some all_items) \<Rightarrow>
                           (cs, py_take limit (map snd (sort_key fst all_items))))))"

subsection \<open>Ranking\<close>

text \<open>
  \<^verbatim>\<open>_dt_of\<close> (lines 644-652): the timestamp of a feature, made aware; every exception is
  answered by \<^verbatim>\<open>datetime.max\<close> in UTC.
\<close>

definition dt_of :: "env \<Rightarrow> item \<Rightarrow> pydatetime" where
  "dt_of env feat =
     (let dt_str = replace_Z (case datetime_prop feat of None \<Rightarrow> [] | Some d \<Rightarrow> d) in
      case fromisoformat env dt_str of
        None \<Rightarrow> DATETIME_MAX_UTC
      | Some dt \<Rightarrow> as_utc dt)"

text \<open>The sort key of line 654, \<^verbatim>\<open>abs(_dt_of(f) - target)\<close>, in microseconds.\<close>

definition rank_key :: "env \<Rightarrow> pydatetime \<Rightarrow> item \<Rightarrow> int" where
  "rank_key env target f = \<bar>utc_us (dt_of env f) - utc_us target\<bar>"

text \<open>
  Lines 654-655. \<^verbatim>\<open>list.sort\<close> is stable, and so is \<^const>\<open>sort_key\<close>: both give the one
  sorted arrangement that keeps equal keys in their order.
\<close>

definition rank3 :: "env \<Rightarrow> pydatetime \<Rightarrow> item list \<Rightarrow> item list" where
  "rank3 env target items = take 3 (sort_key (rank_key env target) items)"

subsection \<open>Band extraction\<close>

definition is_https :: "string option \<Rightarrow> bool" where
  "is_https u = (case u of None \<Rightarrow> False | Some url \<Rightarrow> prefix ''https://'' url)"

text \<open>\<^verbatim>\<open>_pick_href\<close> (lines 691-702), on an asset that is not falsy.\<close>

definition pick_href :: "asset \<Rightarrow> string option" where
  "pick_href a =
     (let url = href a in
      if is_https url then url
      else (case filter is_https (alternates a) of [] \<Rightarrow> url | h # hs \<Rightarrow> h))"

text \<open>
  Lines 704-711: the reference of every required band, or the first band that the item
  lacks (\<^verbatim>\<open>break\<close>).
\<close>

fun collect_hrefs ::
  "(string \<times> asset) list \<Rightarrow> string list \<Rightarrow> string option list \<Rightarrow> string + string option list" where
  "collect_hrefs asts [] hrefs = Inr hrefs"
| "collect_hrefs asts (b # bs) hrefs =
     (case map_of asts b of
        None \<Rightarrow> Inl b
      | Some a \<Rightarrow> collect_hrefs asts bs (hrefs @ [pick_href a]))"

text \<open>The running state of the loops of lines 685-756.\<close>

record acc =
  arrays :: "band list"
  meta_template :: "meta option"
  log :: "call list"
  status :: string

datatype halt = Unauthorized | RasterFailed

definition meta_of :: "band \<Rightarrow> meta" where
  "meta_of data =
     \<lparr>m_dtype = dtype data, m_count = 18, m_height = height data, m_width = width data,
      m_transform = trans data\<rparr>"

definition UNAUTHORIZED_MSG :: string where
  "UNAUTHORIZED_MSG =
     ''Unauthorized (401/403) reading HLS asset. '' @
     ''Ensure EARTHDATA_TOKEN is set and valid in the same shell before running `reflex run`.''"

text \<open>
  The inner loop (lines 716-756). The probe: a status of 401 or 403 ends the whole call
  (\<^verbatim>\<open>return\<close>), an exception of the probe is printed and ignored. The read: an exception
  of \<^verbatim>\<open>rasterio\<close> is not caught. The template is taken from the first band read.
\<close>

fun read_hrefs :: "env \<Rightarrow> bbox \<Rightarrow> string option list \<Rightarrow> acc \<Rightarrow> halt \<times> acc + acc" where
  "read_hrefs env box [] a = Inr a"
| "read_hrefs env box (h # hs) a =
     (let probe = http_probe env (length (log a)) h;
          a1 = a\<lparr>log := log a @ [Probe h]\<rparr>
      in if probe = Some 401 \<or> probe = Some 403
         then Inl (Unauthorized, a1\<lparr>status := UNAUTHORIZED_MSG\<rparr>)
         else
           let a2 = a1\<lparr>log := log a1 @ [RasterOpen h box]\<rparr> in
           case raster_read env (length (log a1)) h box of
             None \<Rightarrow> Inl (RasterFailed, a2)
           | Some data \<Rightarrow>
               read_hrefs env box hs
                 (a2\<lparr>arrays := arrays a2 @ [data],
                     meta_template :=
                       (case meta_template a2 of
                          None \<Rightarrow> Some (meta_of data)
                        | Some m \<Rightarrow> Some m)\<rparr>))"

text \<open>The outer loop (lines 685-756).\<close>

fun extract_bands :: "env \<Rightarrow> bbox \<Rightarrow> item list \<Rightarrow> acc \<Rightarrow> halt \<times> acc + acc" where
  "extract_bands env box [] a = Inr a"
| "extract_bands env box (it # items) a =
     (let coll = collection it;
          bands = bands_for_collection coll
      in case collect_hrefs (assets it) bands [] of
           Inl b \<Rightarrow>
             extract_bands env box items (a\<lparr>status := ''Band '' @ b @ '' missing in item; skipping.''\<rparr>)
         | Inr hrefs \<Rightarrow>
             if hrefs = [] then extract_bands env box items a
             else
               (case read_hrefs env box hrefs a of
                  Inl stop \<Rightarrow> Inl stop
                | Inr a' \<Rightarrow> extract_bands env box items a'))"

subsection \<open>Preview\<close>

text \<open>
  \<^verbatim>\<open>np.percentile(x, q)\<close> with the default linear interpolation, on the flattened
  array: position \<open>q / 100 * (n - 1)\<close> in the sorted values, for \<open>0 \<le> q \<le> 100\<close>. On an
  empty array numpy raises \<^verbatim>\<open>IndexError\<close> (here \<open>None\<close>). The values are reals: the
  rounding of float arithmetic, and the wrap-around of an interpolation that numpy
  carries out in an integer dtype, are not modelled; neither occurs when all values are
  equal.
\<close>

definition percentile :: "real list \<Rightarrow> real \<Rightarrow> real option" where
  "percentile x q =
     (if x = [] then None
      else
        let srt = sort x;
            pos = q / 100 * real (length x - 1);
            i = nat \<lfloor>pos\<rfloor>;
            j = min (Suc i) (length x - 1)
        in Some (srt ! i + (srt ! j - srt ! i) * (pos - real i)))"

definition clip :: "real \<Rightarrow> real \<Rightarrow> real \<Rightarrow> real" where
  "clip v lo hi = min hi (max lo v)"

text \<open>The denominator of line 780.\<close>

definition stretch_denominator :: "real \<Rightarrow> real \<Rightarrow> real" where
  "stretch_denominator lo hi = max (1 / 1000000) (hi - lo)"

text \<open>
  \<^verbatim>\<open>_stretch\<close> (lines 778-781); \<^verbatim>\<open>astype("uint8")\<close> truncates a value of [0, 255]. On an
  empty array the percentiles raise, and so does the stretch (\<open>None\<close>). The quotient
  is a real: where the float quotient, rounded, falls on the other side of an integer,
  the truncated pixel differs by one; a constant channel has the quotient 0, which is
  exact.
\<close>

definition stretch :: "real list \<Rightarrow> 8 word list option" where
  "stretch x =
     (case percentile x 2 of
        None \<Rightarrow> None
      | Some lo \<Rightarrow>
          (case percentile x 98 of
             None \<Rightarrow> None
           | Some hi \<Rightarrow>
               Some (map (\<lambda>v. word_of_int
                                 \<lfloor>clip ((v - lo) / stretch_denominator lo hi) 0 1 * 255\<rfloor>) x)))"

text \<open>\<^verbatim>\<open>arrays[-6:-3][::-1]\<close> (line 776).\<close>

definition latest_rgb :: "'a list \<Rightarrow> 'a list" where
  "latest_rgb xs =
     (let n = length xs; start = n - 6; stop = n - 3
      in rev (take (stop - start) (drop start xs)))"

text \<open>
  The preview (lines 775-788): \<^verbatim>\<open>np.stack\<close> raises unless the three arrays have one
  shape, a stretch raises on an empty array, the image library may fail; any exception
  leaves the preview empty. The result is the file the code tried to write, if it got
  that far, and whether it did.
\<close>

definition build_preview :: "env \<Rightarrow> string \<Rightarrow> band list \<Rightarrow> string list \<times> bool" where
  "build_preview env out_png arrs =
     (case latest_rgb arrs of
        [r, g, b] \<Rightarrow>
          if height g = height r \<and> width g = width r \<and> height b = height r \<and> width b = width r
          then
            (case stretch (pixels r) of
               None \<Rightarrow> ([], False)
             | Some red \<Rightarrow>
                 (case stretch (pixels g) of
                    None \<Rightarrow> ([], False)
                  | Some green \<Rightarrow>
                      (case stretch (pixels b) of
                         None \<Rightarrow> ([], False)
                       | Some blue \<Rightarrow> ([out_png], png_save_ok env out_png [red, green, blue]))))
          else ([], False)
      | _ \<Rightarrow> ([], False))"

subsection \<open>The pipeline\<close>

text \<open>The fields of \<^verbatim>\<open>State\<close> that \<^verbatim>\<open>fetch_tile\<close> reads or writes (lines 313-327).\<close>

record state =
  date_str :: string
  input_lat :: string
  input_lon :: string
  input_address :: string
  fetch_status :: string
  tile_path :: string
  preview_png :: string

text \<open>
  How a call of \<^verbatim>\<open>fetch_tile\<close> ends: at one of its \<^verbatim>\<open>return\<close> statements (named after
  the status they leave), at its last line, or with an exception it does not catch.
\<close>

datatype outcome =
    TileReady
  | ProvideLatLon
  | NoItemsFound
  | BackendMissing
  | UnauthorizedAsset
  | ExpectedEighteen nat
  | Uncaught py_exn

text \<open>
  The result of a call: the state it leaves, how it ended, the requests it sent and the
  files it opened for writing, both in order.
\<close>

record result =
  final :: state
  ending :: outcome
  calls :: "call list"
  written :: "string list"

text \<open>The status texts; a non-ASCII character is written as its UTF-8 bytes.\<close>

definition ELLIPSIS :: string where
  "ELLIPSIS = [CHR 0xE2, CHR 0x80, CHR 0xA6]"

definition EM_DASH :: string where
  "EM_DASH = [CHR 0xE2, CHR 0x80, CHR 0x94]"

definition STARTING_MSG :: string where
  "STARTING_MSG = ''Starting tile fetch'' @ ELLIPSIS"

definition GEOCODING_MSG :: string where
  "GEOCODING_MSG = ''Geocoding address'' @ ELLIPSIS"

definition PROVIDE_MSG :: string where
  "PROVIDE_MSG = ''Provide lat/lon or a valid address.''"

definition NO_ITEMS_MSG :: string where
  "NO_ITEMS_MSG = ''No HLS items found near that point/date. Try adjusting date.''"

definition BACKEND_MSG :: string where
  "BACKEND_MSG = ''Raster backend missing. Please `pip install rasterio numpy` in your venv.''"

definition NO_TOKEN_MSG :: string where
  "NO_TOKEN_MSG =
     ''No EARTHDATA_TOKEN in environment '' @ EM_DASH @ '' HLS protected assets will 401.''"

definition expected_msg :: "nat \<Rightarrow> string" where
  "expected_msg n =
     ''Expected 18 band slices, got '' @ str_nat n @ ''.'' @ [CHR 0x0A] @
     ''If you set EARTHDATA_TOKEN, ensure it'' @ [CHR 0x27] @ ''s valid and restart the app.'' @
     [CHR 0x0A] @
     ''We now send the token via HTTP Authorization header for ranged reads.''"

definition READY_MSG :: string where
  "READY_MSG = ''Tile ready.''"

text \<open>
  The Locator (lines 619-628): the coordinate typed by the caller when both texts parse,
  else the geocoder's when there is an address.
\<close>

definition locate :: "env \<Rightarrow> state \<Rightarrow> state \<times> real option \<times> real option \<times> call list" where
  "locate env s0 =
     (let s = s0\<lparr>fetch_status := STARTING_MSG\<rparr>;
          lat = safe_float env (input_lat s);
          lon = safe_float env (input_lon s)
      in if (lat = None \<or> lon = None) \<and> py_strip env (input_address s) \<noteq> []
         then
           let s1 = s\<lparr>fetch_status := GEOCODING_MSG\<rparr>;
               q = py_strip env (input_address s)
           in case geocode_address env q of
                Some (glat, glon) \<Rightarrow>
                  (s1\<lparr>input_lat := fmt_6f env glat, input_lon := fmt_6f env glon\<rparr>,
                   Some glat, Some glon, [Geocode q])
              | None \<Rightarrow> (s1, lat, lon, [Geocode q])
         else (s, lat, lon, []))"

text \<open>
  The Output Assembler (lines 757-791), entered when the loops have ended. The two files
  are named after the coordinate and the date, inside \<^verbatim>\<open>assets\<close>.
\<close>

definition assemble :: "env \<Rightarrow> state \<Rightarrow> real \<Rightarrow> real \<Rightarrow> acc \<Rightarrow> result" where
  "assemble env s lat lon a =
     (let s1 = s\<lparr>fetch_status := status a\<rparr> in
      if length (arrays a) \<noteq> 18
      then \<lparr>final = s1\<lparr>fetch_status := expected_msg (length (arrays a))\<rparr>,
            ending = ExpectedEighteen (length (arrays a)), calls = log a, written = []\<rparr>
      else if \<not> makedirs_ok env
      then \<lparr>final = s1, ending = Uncaught OSError, calls = log a, written = []\<rparr>
      else
        let stem = ''assets/hls_tile_'' @ fmt_5f env lat @ ''_'' @ fmt_5f env lon @ ''_'' @ date_str s;
            out_tif = stem @ ''.tif'';
            out_png = stem @ ''.png''
        in case meta_template a of
             None \<Rightarrow> \<lparr>final = s1, ending = Uncaught TypeError, calls = log a, written = []\<rparr>
           | Some m \<Rightarrow>
               if \<not> tif_write_ok env out_tif m (arrays a)
               then \<lparr>final = s1, ending = Uncaught RasterioError, calls = log a,
                     written = [out_tif]\<rparr>
               else
                 (case build_preview env out_png (arrays a) of
                    (pngs, saved) \<Rightarrow>
                      \<lparr>final = s1\<lparr>preview_png := (if saved then ''/'' @ basename out_png else []),
                                   tile_path := ''/'' @ basename out_tif,
                                   fetch_status := READY_MSG\<rparr>,
                       ending = TileReady, calls = log a, written = out_tif # pngs\<rparr>))"

text \<open>The box of one kilometre around the point (lines 662-664).\<close>

definition tile_box :: "real \<Rightarrow> real \<Rightarrow> bbox" where
  "tile_box lat lon =
     (case deg_buffer lat 500 of
        (dlat, dlon) \<Rightarrow> (lon - dlon, lat - dlat, lon + dlon, lat + dlat))"

text \<open>
  The state in which the loops start (lines 666-679): no array, no template, the
  requests \<open>cs\<close> sent so far, and the status, which is replaced when the environment
  has no token.
\<close>

definition start_acc :: "env \<Rightarrow> state \<Rightarrow> call list \<Rightarrow> acc" where
  "start_acc env s cs =
     (let token = py_strip env (case earthdata_token env of None \<Rightarrow> [] | Some t \<Rightarrow> t);
          st = (if token \<noteq> [] then fetch_status s else NO_TOKEN_MSG)
      in \<lparr>arrays = [], meta_template = None, log = cs, status = st\<rparr>)"

text \<open>
  \<^verbatim>\<open>State.fetch_tile\<close> from the search on (lines 633-791), for a coordinate; \<open>cs\<close> is
  what the Locator sent.
\<close>

definition fetch_at :: "env \<Rightarrow> state \<Rightarrow> call list \<Rightarrow> real \<Rightarrow> real \<Rightarrow> result" where
  "fetch_at env s cs lat lon =
     (case search_hls_items env (length cs) lat lon (date_str s) 20 of
        (cs1, Inl e) \<Rightarrow> \<lparr>final = s, ending = Uncaught e, calls = cs @ cs1, written = []\<rparr>
      | (cs1, Inr items) \<Rightarrow>
          if items = []
          then \<lparr>final = s\<lparr>fetch_status := NO_ITEMS_MSG\<rparr>, ending = NoItemsFound,
                calls = cs @ cs1, written = []\<rparr>
          else
            (case fromisoformat env (date_str s) of
               None \<Rightarrow> \<lparr>final = s, ending = Uncaught ValueError, calls = cs @ cs1, written = []\<rparr>
             | Some t \<Rightarrow>
                 let target = as_utc t;
                     items3 = rank3 env target items
                 in if \<not> have_rasterio env
                    then \<lparr>final = s\<lparr>fetch_status := BACKEND_MSG\<rparr>, ending = BackendMissing,
                          calls = cs @ cs1, written = []\<rparr>
                    else
                      (case extract_bands env (tile_box lat lon) items3
                              (start_acc env s (cs @ cs1)) of
                         Inl (Unauthorized, a) \<Rightarrow>
                           \<lparr>final = s\<lparr>fetch_status := status a\<rparr>, ending = UnauthorizedAsset,
                            calls = log a, written = []\<rparr>
                       | Inl (RasterFailed, a) \<Rightarrow>
                           \<lparr>final = s\<lparr>fetch_status := status a\<rparr>,
                            ending = Uncaught RasterioError, calls = log a, written = []\<rparr>
                       | Inr a \<Rightarrow> assemble env s lat lon a)))"

text \<open>\<^verbatim>\<open>State.fetch_tile\<close> (lines 617-791).\<close>

definition fetch_tile :: "env \<Rightarrow> state \<Rightarrow> result" where
  "fetch_tile env s0 =
     (case locate env s0 of
        (s, Some lat, Some lon, cs) \<Rightarrow> fetch_at env s cs lat lon
      | (s, _, _, cs) \<Rightarrow>
          \<lparr>final = s\<lparr>fetch_status := PROVIDE_MSG\<rparr>, ending = ProvideLatLon, calls = cs,
           written = []\<rparr>)"

text \<open>
  An acquisition has all its bands when the loop of lines 704-711 ends without
  \<^verbatim>\<open>break\<close>.
\<close>

definition has_all_bands :: "item \<Rightarrow> bool" where
  "has_all_bands it =
     (case collect_hrefs (assets it) (bands_for_collection (collection it)) [] of
        Inl b \<Rightarrow> False
      | Inr hrefs \<Rightarrow> True)"

text \<open>\<^verbatim>\<open>datetime.min\<close> in UTC, 0001-01-01T00:00:00+00:00: the other end of the calendar.\<close>

definition DATETIME_MIN_UTC :: pydatetime where
  "DATETIME_MIN_UTC = \<lparr>ordinal = 1, tod_us = 0, utcoffset = Some 0\<rparr>"

text \<open>
  Request \<open>i\<close> of a run is a denied probe when it is a probe and the asset store
  answers it with 401 or 403.
\<close>

definition denied :: "env \<Rightarrow> call list \<Rightarrow> nat \<Rightarrow> bool" where
  "denied env cs i =
     (i < length cs \<and>
      (case cs ! i of
         Probe h \<Rightarrow> http_probe env i h = Some 401 \<or> http_probe env i h = Some 403
       | _ \<Rightarrow> False))"

text \<open>The running state with which a loop ended, however it ended.\<close>

definition final_acc :: "halt \<times> acc + acc \<Rightarrow> acc" where
  "final_acc r = (case r of Inl (stop, a) \<Rightarrow> a | Inr a \<Rightarrow> a)"

text \<open>A log with no denied probe.\<close>

definition clean :: "env \<Rightarrow> call list \<Rightarrow> bool" where
  "clean env cs = (\<forall>i. \<not> denied env cs i)"

text \<open>What the loops of the extraction leave behind: a log with no denied probe when they
  end or when the raster library raises, and a log whose last request is the one denied
  probe, with the unauthorized status, when they end at line 725.\<close>

definition settled :: "env \<Rightarrow> halt \<times> acc + acc \<Rightarrow> bool" where
  "settled env r =
     (case r of
        Inr a \<Rightarrow> clean env (log a)
      | Inl (RasterFailed, a) \<Rightarrow> clean env (log a)
      | Inl (Unauthorized, a) \<Rightarrow>
          status a = UNAUTHORIZED_MSG \<and>
          (\<exists>pre h. log a = pre @ [Probe h] \<and> clean env pre \<and>
             (http_probe env (length pre) h = Some 401 \<or> http_probe env (length pre) h = Some 403)))"

text \<open>
  The \<^verbatim>\<open>return\<close> statements of \<^verbatim>\<open>fetch_tile\<close> before its last line (lines 631, 637, 659,
  725 and 763).
\<close>

fun early_return :: "outcome \<Rightarrow> bool" where
  "early_return ProvideLatLon = True"
| "early_return NoItemsFound = True"
| "early_return BackendMissing = True"
| "early_return UnauthorizedAsset = True"
| "early_return (ExpectedEighteen n) = True"
| "early_return TileReady = False"
| "early_return (Uncaught x) = False"

subsection \<open>A sample world\<close>

text \<open>
  A concrete environment and state on which the definitions are run: the third of
  November 2026, a catalog that answers the first request with four acquisitions (one
  with a timestamp that does not parse), assets that answer every probe with 206, a
  raster library that reads a constant 2 by 2 window.
\<close>

definition demo_dates :: "(string \<times> pydatetime) list" where
  "demo_dates =
     [(''2023-06-01'', \<lparr>ordinal = 738672, tod_us = 0, utcoffset = None\<rparr>),
      (''2023-05-30T10:30:00+00:00'',
         \<lparr>ordinal = 738670, tod_us = 37800000000, utcoffset = Some 0\<rparr>),
      (''2023-06-02T10:30:00+00:00'',
         \<lparr>ordinal = 738673, tod_us = 37800000000, utcoffset = Some 0\<rparr>),
      (''2023-06-09T10:30:00+00:00'',
         \<lparr>ordinal = 738680, tod_us = 37800000000, utcoffset = Some 0\<rparr>),
      (''2099-01-01'', \<lparr>ordinal = 766280, tod_us = 0, utcoffset = None\<rparr>),
      (''9999-12-25'', \<lparr>ordinal = 3652053, tod_us = 0, utcoffset = None\<rparr>)]"

definition demo_assets :: "string list \<Rightarrow> (string \<times> asset) list" where
  "demo_assets bands =
     map (\<lambda>b. (b, \<lparr>href = Some (''https://lp/'' @ b), alternates = []\<rparr>)) bands"

definition demo_item :: "string \<Rightarrow> string \<Rightarrow> item" where
  "demo_item coll stamp =
     \<lparr>collection = coll, datetime_prop = Some stamp,
      assets = demo_assets (bands_for_collection coll)\<rparr>"

definition demo_items :: "item list" where
  "demo_items =
     [demo_item ''HLSS30.v2.0'' ''2023-05-30T10:30:00Z'',
      demo_item ''HLSS30.v2.0'' ''unknown'',
      demo_item ''HLSL30.v2.0'' ''2023-06-02T10:30:00Z'',
      demo_item ''HLSS30.v2.0'' ''2023-06-09T10:30:00Z'']"

definition demo_band :: band where
  "demo_band =
     \<lparr>dtype = ''int16'', height = 2, width = 2, pixels = [7, 7, 7, 7],
      trans = [1, 0, 0, 0, 1, 0]\<rparr>"

definition demo_env :: env where
  "demo_env =
     \<lparr>py_float = map_of [(''0'', 0), (''100'', 100), (''200'', 200),
                         (''48.8566'', 488566 / 10000), (''2.3522'', 23522 / 10000)],
      py_strip = ascii_strip,
      fmt_6f = (\<lambda>x. if x = 100 then ''100.000000'' else if x = 200 then ''200.000000''
                    else if x = 488566 / 10000 then ''48.856600''
                    else if x = 23522 / 10000 then ''2.352200'' else ''0.000000''),
      fmt_5f = (\<lambda>x. if x = 100 then ''100.00000'' else if x = 200 then ''200.00000''
                    else ''0.00000''),
      fromisoformat = map_of demo_dates,
      today = 739923,
      now_utc = \<lparr>ordinal = 739923, tod_us = 0, utcoffset = Some 0\<rparr>,
      http_geocode = (\<lambda>q. if q = ''Paris'' then Some [(''48.8566'', ''2.3522'')] else None),
      http_search = (\<lambda>n rq. if n = 0 then Some demo_items else None),
      http_granules = (\<lambda>n rq. None),
      have_rasterio = True,
      earthdata_token = Some ''secret'',
      http_probe = (\<lambda>n h. Some 206),
      raster_read = (\<lambda>n h box. Some demo_band),
      makedirs_ok = True,
      tif_write_ok = (\<lambda>p m bs. True),
      png_save_ok = (\<lambda>p rgb. True)\<rparr>"

text \<open>
  The sample world with a scripted catalog: the search endpoints answer the \<open>n\<close>-th
  request of the run with the \<open>n\<close>-th entry of \<open>answers\<close> (an exception when there is
  none), the granule feed answers with \<open>feed\<close>.
\<close>

definition scripted_env :: "item list option list \<Rightarrow> granule list option \<Rightarrow> env" where
  "scripted_env answers feed =
     demo_env\<lparr>http_search := (\<lambda>n rq. if n < length answers then answers ! n else None),
              http_granules := (\<lambda>n rq. feed)\<rparr>"

definition demo_granule :: granule where
  "demo_granule = \<lparr>time_start = Some ''2023-06-02T10:30:00Z'', dataset_id = ''HLSS30.v2.0''\<rparr>"

text \<open>An acquisition that has only two of its bands.\<close>

definition demo_partial_item :: item where
  "demo_partial_item =
     \<lparr>collection = ''HLSL30.v2.0'', datetime_prop = Some ''2023-06-02T10:30:00Z'',
      assets = demo_assets [''B02'', ''B03'']\<rparr>"

definition demo_state :: state where
  "demo_state =
     \<lparr>date_str = ''2023-06-01'', input_lat = ''0'', input_lon = ''0'', input_address = [],
      fetch_status = [], tile_path = ''/old.tif'', preview_png = ''/old.png''\<rparr>"




text \<open>A caller who typed an address and no coordinate.\<close>

definition address_state :: state where
  "address_state = demo_state\<lparr>input_lat := [], input_lon := [], input_address := '' Paris ''\<rparr>"

section \<open>Properties\<close>

lemmas demo_defs =
  demo_env_def scripted_env_def demo_granule_def demo_partial_item_def demo_state_def demo_items_def demo_item_def demo_assets_def demo_dates_def
  demo_band_def


lemmas model_defs =
  fetch_tile_def locate_def safe_float_def geocode_address_def fetch_at_def
  search_hls_items_def search_window_def plus_days_def truthy_features_def small_box_def
  stage3_4_def granule_fallback_def fabricate_def HLS_COLLECTIONS_def
  rank3_def rank_key_def dt_of_def replace_Z_def utc_us_def as_utc_def
  DATETIME_MAX_UTC_def DATETIME_MIN_UTC_def MAXORDINAL_def deg_buffer_def radians_def
  ascii_strip_def is_space_def py_take_def basename_def bands_for_collection_def S30_BANDS_def
  L30_BANDS_def pick_href_def is_https_def has_all_bands_def assemble_def build_preview_def
  latest_rgb_def meta_of_def tile_box_def start_acc_def Let_def

subsection \<open>Band taxonomy\<close>

lemma length_S30_BANDS: "length S30_BANDS = 6"
  by (simp add: S30_BANDS_def)

lemma length_L30_BANDS: "length L30_BANDS = 6"
  by (simp add: L30_BANDS_def)

text \<open>
  C6, as the code has it. \<^const>\<open>bands_for_collection\<close>, the mapping the extraction loop
  uses, is a function of the identifier alone (a HOL function: no request, the same list
  at every call) and gives six band codes for every identifier: the Sentinel alphabet
  for an identifier that starts with \<^verbatim>\<open>HLSS30\<close>, the Landsat alphabet for any other.
  \<^const>\<open>HLSClient_bands_for_collection\<close> is such a function too, but lists the
  available bands: eleven codes for an identifier that contains \<^verbatim>\<open>HLSL30\<close>, thirteen
  for one that contains \<^verbatim>\<open>HLSS30\<close> and not \<^verbatim>\<open>HLSL30\<close>, none for any other.
\<close>

theorem bands_for_collection_six:
  "length (bands_for_collection coll_id) = 6 \<and>
   bands_for_collection coll_id = (if prefix ''HLSS30'' coll_id then S30_BANDS else L30_BANDS) \<and>
   bands_for_collection ''HLSS30.v2.0'' = [''B02'', ''B03'', ''B04'', ''B8A'', ''B11'', ''B12''] \<and>
   bands_for_collection ''HLSL30.v2.0'' = [''B02'', ''B03'', ''B04'', ''B05'', ''B06'', ''B07''] \<and>
   (sublist ''HLSL30'' coll_id \<longrightarrow>
      HLSClient_bands_for_collection coll_id =
        [''B01'', ''B02'', ''B03'', ''B04'', ''B05'', ''B06'', ''B07'', ''B08'', ''B09'',
         ''B10'', ''B11'']) \<and>
   (sublist ''HLSS30'' coll_id \<and> \<not> sublist ''HLSL30'' coll_id \<longrightarrow>
      HLSClient_bands_for_collection coll_id =
        [''B01'', ''B02'', ''B03'', ''B04'', ''B05'', ''B06'', ''B07'', ''B08'', ''B8A'',
         ''B09'', ''B10'', ''B11'', ''B12'']) \<and>
   (\<not> sublist ''HLSS30'' coll_id \<and> \<not> sublist ''HLSL30'' coll_id \<longrightarrow>
      HLSClient_bands_for_collection coll_id = []) \<and>
   length (HLSClient_bands_for_collection coll_id) \<in> {0, 11, 13}"
  by (simp add: bands_for_collection_def length_S30_BANDS length_L30_BANDS S30_BANDS_def
      L30_BANDS_def HLSClient_bands_for_collection_def)

theorem bands_for_collection_six_witness:
  "sublist ''HLSL30'' ''HLSL30.v2.0'' \<and>
   HLSClient_bands_for_collection ''HLSL30.v2.0'' =
     [''B01'', ''B02'', ''B03'', ''B04'', ''B05'', ''B06'', ''B07'', ''B08'', ''B09'',
      ''B10'', ''B11''] \<and>
   sublist ''HLSS30'' ''HLSS30.v2.0'' \<and> \<not> sublist ''HLSL30'' ''HLSS30.v2.0'' \<and>
   HLSClient_bands_for_collection ''HLSS30.v2.0'' =
     [''B01'', ''B02'', ''B03'', ''B04'', ''B05'', ''B06'', ''B07'', ''B08'', ''B8A'',
      ''B09'', ''B10'', ''B11'', ''B12''] \<and>
   \<not> sublist ''HLSS30'' ''MOD13Q1'' \<and> \<not> sublist ''HLSL30'' ''MOD13Q1'' \<and>
   HLSClient_bands_for_collection ''MOD13Q1'' = [] \<and>
   bands_for_collection ''MOD13Q1'' = [''B02'', ''B03'', ''B04'', ''B05'', ''B06'', ''B07'']"
proof -
  have l: "sublist ''HLSL30'' ''HLSL30.v2.0''"
    by (simp add: sublist_Cons_right)
  have s: "sublist ''HLSS30'' ''HLSS30.v2.0''" "\<not> sublist ''HLSL30'' ''HLSS30.v2.0''"
    by (simp_all add: sublist_Cons_right)
  have n: "\<not> sublist ''HLSS30'' ''MOD13Q1''" "\<not> sublist ''HLSL30'' ''MOD13Q1''"
    by (simp_all add: sublist_Cons_right)
  show ?thesis
    using bands_for_collection_six [of "''HLSL30.v2.0''"]
      bands_for_collection_six [of "''HLSS30.v2.0''"]
      bands_for_collection_six [of "''MOD13Q1''"] l s n
    by (simp add: L30_BANDS_def)
qed

text \<open>
  C6 as stated fails on \<^const>\<open>HLSClient_bands_for_collection\<close>: the Landsat collection
  maps to eleven band codes, not six.
\<close>

theorem HLSClient_bands_not_six:
  "length (HLSClient_bands_for_collection ''HLSL30.v2.0'') = 11 \<and>
   length (HLSClient_bands_for_collection ''HLSL30.v2.0'') \<noteq> 6"
  by (simp add: HLSClient_bands_for_collection_def sublist_Cons_right)

subsection \<open>Metres to degrees\<close>

lemma cos_radians_antimono:
  assumes "\<bar>a\<bar> \<le> \<bar>b\<bar>" and "\<bar>b\<bar> \<le> 180"
  shows "cos (radians b) \<le> cos (radians a)"
proof -
  have a: "cos (radians a) = cos (radians \<bar>a\<bar>)" and b: "cos (radians b) = cos (radians \<bar>b\<bar>)"
    by (simp_all add: radians_def abs_if)
  have "radians \<bar>a\<bar> \<le> radians \<bar>b\<bar>"
    using assms by (simp add: radians_def)
  moreover have "0 \<le> radians \<bar>a\<bar>"
    by (simp add: radians_def)
  moreover have "radians \<bar>b\<bar> \<le> pi"
    using assms(2) by (simp add: radians_def)
  ultimately have "cos (radians \<bar>b\<bar>) \<le> cos (radians \<bar>a\<bar>)"
    by (intro cos_monotone_0_pi_le) auto
  then show ?thesis
    by (simp add: a b)
qed

lemma cos_radians_pos:
  assumes "\<bar>a\<bar> < 90"
  shows "0 < cos (radians a)"
proof -
  have "- 90 < a" and "a < 90"
    using assms by auto
  then have "(- 90) * (pi / 180) < a * (pi / 180)" and "a * (pi / 180) < 90 * (pi / 180)"
    by (simp_all only: mult_less_cancel_right_pos pi_gt_zero divide_pos_pos zero_less_numeral)
  then have "- (pi / 2) < radians a" and "radians a < pi / 2"
    by (simp_all add: radians_def)
  then show ?thesis
    by (rule cos_gt_zero_pi)
qed

lemma deg_buffer_lon_mono:
  assumes "0 \<le> m" and "\<bar>a\<bar> \<le> \<bar>b\<bar>" and "\<bar>b\<bar> \<le> 180"
  shows "snd (deg_buffer a m) \<le> snd (deg_buffer b m)"
proof -
  have "max (1 / 10) (cos (radians b)) \<le> max (1 / 10) (cos (radians a))"
    using cos_radians_antimono [OF assms(2,3)] by auto
  moreover have "0 < max (1 / 10) (cos (radians b))"
    by simp
  ultimately have "m / (111320 * max (1 / 10) (cos (radians a)))
      \<le> m / (111320 * max (1 / 10) (cos (radians b)))"
    using assms(1) by (intro divide_left_mono) (auto intro!: mult_pos_pos)
  then show ?thesis
    by (simp add: deg_buffer_def)
qed

lemma deg_buffer_lon_bound:
  assumes "0 \<le> m"
  shows "snd (deg_buffer a m) \<le> m / 11132"
proof -
  have "(111320::real) * (1 / 10) \<le> 111320 * max (1 / 10) (cos (radians a))"
    by (intro mult_left_mono) auto
  then have "m / (111320 * max (1 / 10) (cos (radians a))) \<le> m / (111320 * (1 / 10))"
    using assms by (intro divide_left_mono) (auto intro!: mult_pos_pos)
  then show ?thesis
    by (simp add: deg_buffer_def)
qed

lemma HLSClient_deg_buffer_mono:
  assumes "0 \<le> m" and "\<bar>a\<bar> \<le> \<bar>b\<bar>" and "\<bar>b\<bar> < 90"
  shows "HLSClient_deg_buffer a m \<noteq> None \<and> HLSClient_deg_buffer b m \<noteq> None \<and>
         snd (the (HLSClient_deg_buffer a m)) \<le> snd (the (HLSClient_deg_buffer b m))"
proof -
  have pa: "0 < cos (radians a)" and pb: "0 < cos (radians b)"
    using assms by (auto intro!: cos_radians_pos)
  have le: "cos (radians b) \<le> cos (radians a)"
    using assms by (intro cos_radians_antimono) auto
  have "m * (1 / (111320 * cos (radians a))) \<le> m * (1 / (111320 * cos (radians b)))"
    using assms(1) pa pb le by (intro mult_left_mono divide_left_mono) (auto intro!: mult_pos_pos)
  then show ?thesis
    using pa pb by (simp add: HLSClient_deg_buffer_def Let_def)
qed

lemma cos_radians_near_pole: "cos (radians (8999 / 100)) < 1 / 4500"
proof -
  have "radians (8999 / 100) = pi / 2 - pi / 18000"
    by (simp add: radians_def)
  then have "cos (radians (8999 / 100)) = cos (pi / 2 - pi / 18000)"
    by (simp only:)
  also have "\<dots> = sin (pi / 18000)"
    using sin_cos_eq [of "pi / 18000"] by simp
  also have "\<dots> \<le> pi / 18000"
    by (intro sin_x_le_x) simp
  also have "\<dots> < 4 / 18000"
    using pi_less_4 by simp
  finally show ?thesis
    by simp
qed

text \<open>
  C7, as the code has it (floats read as reals). For a radius that is not negative and
  latitudes \<open>\<bar>a\<bar> \<le> \<bar>b\<bar> < 90\<close>, the longitude width at \<open>b\<close> is at least the width
  at \<open>a\<close>, for \<^const>\<open>deg_buffer\<close> and for \<^const>\<open>HLSClient_deg_buffer\<close>. Only
  \<^const>\<open>deg_buffer\<close> floors the cosine (at 0.1), which keeps its width at or below
  \<open>radius / 11132\<close> degrees at every latitude.
\<close>

theorem deg_buffer_width_monotone:
  assumes "0 \<le> meters" and "\<bar>a\<bar> \<le> \<bar>b\<bar>" and "\<bar>b\<bar> < 90"
  shows "snd (deg_buffer a meters) \<le> snd (deg_buffer b meters) \<and>
         snd (deg_buffer b meters) \<le> meters / 11132 \<and>
         HLSClient_deg_buffer a meters \<noteq> None \<and> HLSClient_deg_buffer b meters \<noteq> None \<and>
         snd (the (HLSClient_deg_buffer a meters)) \<le> snd (the (HLSClient_deg_buffer b meters))"
  using deg_buffer_lon_mono [of meters a b] deg_buffer_lon_bound [of meters b]
    HLSClient_deg_buffer_mono [of meters a b] assms
  by simp

theorem deg_buffer_width_monotone_witness:
  "snd (deg_buffer 0 500) \<le> snd (deg_buffer 60 500) \<and>
   snd (deg_buffer 60 500) \<le> 500 / 11132 \<and>
   HLSClient_deg_buffer 0 500 \<noteq> None \<and> HLSClient_deg_buffer 60 500 \<noteq> None \<and>
   snd (the (HLSClient_deg_buffer 0 500)) \<le> snd (the (HLSClient_deg_buffer 60 500))"
  using deg_buffer_width_monotone [of 500 0 60] by simp

text \<open>
  C7 as stated fails on \<^const>\<open>HLSClient_deg_buffer\<close>, whose divisor has no floor: at
  latitude 89.99 a radius of 10 km is more than 360 degrees of longitude wide, while the
  floored \<^const>\<open>deg_buffer\<close> stays below one degree.
\<close>

theorem HLSClient_deg_buffer_blows_up:
  "HLSClient_deg_buffer (8999 / 100) 10000 \<noteq> None \<and>
   360 < snd (the (HLSClient_deg_buffer (8999 / 100) 10000)) \<and>
   snd (deg_buffer (8999 / 100) 10000) < 1"
proof -
  have pos: "0 < cos (radians (8999 / 100))"
    by (rule cos_radians_pos) simp
  have small: "cos (radians (8999 / 100)) < 1 / 4500"
    by (rule cos_radians_near_pole)
  have "360 * (111320 * cos (radians (8999 / 100))) < 10000"
    using small by simp
  then have "360 < 10000 / (111320 * cos (radians (8999 / 100)))"
    using pos by (simp add: pos_less_divide_eq)
  moreover have "snd (deg_buffer (8999 / 100) 10000) \<le> 10000 / 11132"
    by (rule deg_buffer_lon_bound) simp
  ultimately show ?thesis
    using pos by (simp add: HLSClient_deg_buffer_def Let_def)
qed

subsection \<open>Preview stretch\<close>

lemma sort_replicate: "sort (replicate k (c::real)) = replicate k c"
  by (rule sort_key_id_if_sorted) (simp add: sorted_replicate)

lemma percentile_constant:
  assumes "0 \<le> q" and "q \<le> 100"
  shows "percentile (replicate (Suc n) c) q = Some c"
proof -
  let ?pos = "q / 100 * real n"
  have "q * real n \<le> 100 * real n"
    using assms by (intro mult_right_mono) auto
  then have "?pos \<le> real n"
    by simp
  then have "\<lfloor>?pos\<rfloor> \<le> int n"
    by (simp add: floor_le_iff)
  moreover have "0 \<le> ?pos"
    using assms by simp
  ultimately have i: "nat \<lfloor>?pos\<rfloor> < Suc n"
    by linarith
  have j: "min (Suc (nat \<lfloor>?pos\<rfloor>)) n < Suc n"
    by simp
  show ?thesis
    using i j by (simp add: percentile_def sort_replicate Let_def del: replicate.simps)
qed

lemma stretch_replicate: "stretch (replicate (Suc n) c) = Some (replicate (Suc n) 0)"
proof -
  have "map (\<lambda>v. (word_of_int \<lfloor>clip ((v - c) / stretch_denominator c c) 0 1 * 255\<rfloor> :: 8 word))
          (replicate (Suc n) c) = replicate (Suc n) 0"
    by (simp add: clip_def del: replicate.simps)
  then show ?thesis
    by (simp add: stretch_def percentile_constant del: replicate.simps)
qed

lemma stretch_empty: "stretch [] = None"
  by (simp add: stretch_def percentile_def)

lemma stretch_sample: "stretch [7, 7, 7, 7] = Some [0, 0, 0, 0]"
  using stretch_replicate [of 3 7] by (simp add: numeral_3_eq_3)

text \<open>
  C8 (floats read as reals). A constant channel is \<open>replicate (Suc n) c\<close>: at least one
  pixel, all of value \<open>c\<close>. Its 2nd and 98th percentiles are both \<open>c\<close>; the denominator of
  the stretch is at least \<open>1e-6\<close> whatever the percentiles are, so the division is never
  by zero; and the stretched channel is flat, every pixel 0.
\<close>

theorem stretch_constant_channel:
  "percentile (replicate (Suc n) c) 2 = Some c \<and>
   percentile (replicate (Suc n) c) 98 = Some c \<and>
   stretch_denominator c c = 1 / 1000000 \<and>
   1 / 1000000 \<le> stretch_denominator lo hi \<and>
   stretch_denominator lo hi \<noteq> 0 \<and>
   stretch (replicate (Suc n) c) = Some (replicate (Suc n) 0)"
proof -
  have "1 / 1000000 \<le> stretch_denominator lo hi"
    by (simp add: stretch_denominator_def)
  moreover from this have "stretch_denominator lo hi \<noteq> 0"
    by auto
  moreover have "stretch_denominator c c = 1 / 1000000"
    by (simp add: stretch_denominator_def)
  ultimately show ?thesis
    by (simp add: percentile_constant stretch_replicate del: replicate.simps)
qed

theorem stretch_constant_channel_witness:
  "stretch [7, 7, 7] = Some [0, 0, 0] \<and> stretch_denominator 7 7 \<noteq> 0"
  using stretch_constant_channel [of 2 7 7 7] by (simp add: numeral_2_eq_2)

subsection \<open>Ranking\<close>









subsection \<open>Catalog search\<close>

lemma search_window_Inr:
  assumes "search_window env dt = Inr (a, b)"
  shows "\<exists>t0. fromisoformat env dt = Some t0 \<and> a = ordinal t0 - 15 \<and>
              b = min (ordinal t0 + 15) (today env)"
  using assms
  by (auto simp: search_window_def plus_days_def Let_def min_def split: option.splits if_splits)

lemma search_inverted:
  assumes "search_window env dt = Inr (a, b)" and "b < a"
  shows "search_hls_items env n lat lon dt limit = ([], Inr [])"
  using assms by (simp add: search_hls_items_def)

lemma per_collection_two:
  "per_collection env n box win limit [c1, c2] [] =
     (case http_search env n (GetItems c1 box (fst win) (snd win) limit) of
        None \<Rightarrow> ([GetItems c1 box (fst win) (snd win) limit], None)
      | Some f1 \<Rightarrow>
          (case http_search env (Suc n) (GetItems c2 box (fst win) (snd win) limit) of
             None \<Rightarrow> ([GetItems c1 box (fst win) (snd win) limit, GetItems c2 box (fst win) (snd win) limit], None)
           | Some f2 \<Rightarrow> ([GetItems c1 box (fst win) (snd win) limit, GetItems c2 box (fst win) (snd win) limit], Some (f1 @ f2))))"
  by (simp add: Let_def split: option.splits)

lemma search_windows:
  assumes "search_window env dt = Inr (a, b)"
  shows "\<forall>c \<in> set (fst (search_hls_items env n lat lon dt limit)). call_window c = Some (a, b)"
  using assms
  by (auto simp: search_hls_items_def Let_def stage3_4_def granule_fallback_def HLS_COLLECTIONS_def per_collection_two
      split: option.splits if_splits prod.splits)

text \<open>
  C2, as the code has it. Once the window is computed and is not inverted, the search
  never raises and sends its requests in the order point POST, box POST, items GET for
  \<^verbatim>\<open>HLSS30.v2.0\<close>, items GET for \<^verbatim>\<open>HLSL30.v2.0\<close>, granule GET (the calls are a
  subsequence of that list). A failure or an empty answer of stage 1 or 2 is swallowed and
  the next stage runs; the first of them with features wins. Stage 3 wins whenever both
  its requests succeed, with the concatenation of their features even when that is
  empty, and then the granule search is not attempted. The granule search runs only when
  a request of stage 3 raises, and its result (fabricated features, or nothing) is the
  answer.
\<close>

theorem search_cascade:
  fixes env n lat lon dt limit a b
  defines "box \<equiv> small_box lat lon"
  defines "rq1 \<equiv> PostIntersects lon lat a b limit"
    and "rq2 \<equiv> PostBbox box a b limit"
    and "rq3a \<equiv> GetItems ''HLSS30.v2.0'' box a b limit"
    and "rq3b \<equiv> GetItems ''HLSL30.v2.0'' box a b limit"
    and "rq4 \<equiv> GetGranules box a b"
  defines "r1 \<equiv> truthy_features (http_search env n rq1)"
    and "r2 \<equiv> truthy_features (http_search env (n + 1) rq2)"
    and "r3a \<equiv> http_search env (n + 2) rq3a"
    and "r3b \<equiv> http_search env (n + 3) rq3b"
  defines "S \<equiv> search_hls_items env n lat lon dt limit"
  assumes win: "search_window env dt = Inr (a, b)" and ord: "a \<le> b"
  shows "(\<exists>feats. snd S = Inr feats) \<and>
         subseq (fst S) [rq1, rq2, rq3a, rq3b, rq4] \<and>
         (r1 = Some f \<longrightarrow> S = ([rq1], Inr f)) \<and>
         (r1 = None \<and> r2 = Some f \<longrightarrow> S = ([rq1, rq2], Inr f)) \<and>
         (r1 = None \<and> r2 = None \<and> r3a = Some f1 \<and> r3b = Some f2 \<longrightarrow>
            S = ([rq1, rq2, rq3a, rq3b], Inr (f1 @ f2))) \<and>
         (r1 = None \<and> r2 = None \<and> r3a = None \<longrightarrow>
            S = ([rq1, rq2, rq3a, rq4], Inr (granule_fallback env (n + 3) rq4 limit))) \<and>
         (r1 = None \<and> r2 = None \<and> r3a = Some f1 \<and> r3b = None \<longrightarrow>
            S = ([rq1, rq2, rq3a, rq3b, rq4], Inr (granule_fallback env (n + 4) rq4 limit)))"
proof -
  have n3: "n + 3 = Suc (Suc (Suc n))" and n4: "n + 4 = Suc (Suc (Suc (Suc n)))"
    by simp_all
  have S: "S = (case r1 of Some feats \<Rightarrow> ([rq1], Inr feats)
            | None \<Rightarrow> (case r2 of Some feats \<Rightarrow> ([rq1, rq2], Inr feats)
            | None \<Rightarrow> (case r3a of None \<Rightarrow> ([rq1, rq2, rq3a, rq4], Inr (granule_fallback env (n + 3) rq4 limit))
               | Some f1 \<Rightarrow> (case r3b of None \<Rightarrow> ([rq1, rq2, rq3a, rq3b, rq4], Inr (granule_fallback env (n + 4) rq4 limit))
                   | Some f2 \<Rightarrow> ([rq1, rq2, rq3a, rq3b], Inr (f1 @ f2))))))"
    using win ord
    unfolding S_def r1_def r2_def r3a_def r3b_def rq1_def rq2_def rq3a_def rq3b_def rq4_def box_def n3 n4
    by (simp add: search_hls_items_def Let_def stage3_4_def HLS_COLLECTIONS_def per_collection_two
        split: option.splits)
  show ?thesis
    unfolding S by (simp split: option.splits)
qed

text \<open>
  C2 as stated fails: with a catalog whose three search stages succeed with no feature
  and whose granule feed has an entry, the search returns the empty list after four
  requests, none of them the granule request, although the granule stage run on the same
  world yields a feature.
\<close>

theorem search_empty_without_granule_stage:
  "search_hls_items (scripted_env [Some [], Some [], Some [], Some []] (Some [demo_granule]))
       0 0 0 ''2023-06-01'' 20 =
     ([PostIntersects 0 0 738657 738687 20,
       PostBbox (small_box 0 0) 738657 738687 20,
       GetItems ''HLSS30.v2.0'' (small_box 0 0) 738657 738687 20,
       GetItems ''HLSL30.v2.0'' (small_box 0 0) 738657 738687 20], Inr []) \<and>
   granule_fallback (scripted_env [Some [], Some [], Some [], Some []] (Some [demo_granule]))
       4 (GetGranules (small_box 0 0) 738657 738687) 20 =
     [\<lparr>collection = ''HLSS30.v2.0'', datetime_prop = Some ''2023-06-02T10:30:00Z'', assets = []\<rparr>]"
  by (simp add: search_hls_items_def search_window_def plus_days_def MAXORDINAL_def truthy_features_def Let_def
     stage3_4_def HLS_COLLECTIONS_def granule_fallback_def fabricate_def py_take_def sublist_Cons_right demo_defs)

lemma demo_window: "search_window (scripted_env answers feed) ''2023-06-01'' = Inr (738657, 738687)"
  by (simp add: search_window_def plus_days_def MAXORDINAL_def demo_defs)

theorem search_cascade_witness:
  "search_hls_items (scripted_env [Some demo_items] None) 0 0 0 ''2023-06-01'' 20 =
     ([PostIntersects 0 0 738657 738687 20], Inr demo_items) \<and>
   search_hls_items (scripted_env [None, Some demo_items] None) 0 0 0 ''2023-06-01'' 20 =
     ([PostIntersects 0 0 738657 738687 20, PostBbox (small_box 0 0) 738657 738687 20],
      Inr demo_items) \<and>
   search_hls_items (scripted_env [Some [], None, Some [], Some demo_items] None) 0 0 0 ''2023-06-01'' 20 =
     ([PostIntersects 0 0 738657 738687 20, PostBbox (small_box 0 0) 738657 738687 20,
       GetItems ''HLSS30.v2.0'' (small_box 0 0) 738657 738687 20,
       GetItems ''HLSL30.v2.0'' (small_box 0 0) 738657 738687 20], Inr demo_items) \<and>
   search_hls_items (scripted_env [] (Some [demo_granule])) 0 0 0 ''2023-06-01'' 20 =
     ([PostIntersects 0 0 738657 738687 20, PostBbox (small_box 0 0) 738657 738687 20,
       GetItems ''HLSS30.v2.0'' (small_box 0 0) 738657 738687 20,
       GetGranules (small_box 0 0) 738657 738687],
      Inr [fabricate demo_granule]) \<and>
   search_hls_items (scripted_env [None, None, Some demo_items] None) 0 0 0 ''2023-06-01'' 20 =
     ([PostIntersects 0 0 738657 738687 20, PostBbox (small_box 0 0) 738657 738687 20,
       GetItems ''HLSS30.v2.0'' (small_box 0 0) 738657 738687 20,
       GetItems ''HLSL30.v2.0'' (small_box 0 0) 738657 738687 20,
       GetGranules (small_box 0 0) 738657 738687],
      Inr [])"
proof -
  have ord: "(738657::int) \<le> 738687"
    by simp
  have items: "demo_items \<noteq> []"
    by (simp add: demo_items_def)
  note c = search_cascade [OF demo_window ord, of _ _ 0 0 0 20]
  show ?thesis
    using c [of "[Some demo_items]" None demo_items]
      c [of "[None, Some demo_items]" None demo_items]
      c [of "[Some [], None, Some [], Some demo_items]" None _ "[]" demo_items]
      c [of "[]" "Some [demo_granule]"]
      c [of "[None, None, Some demo_items]" None _ demo_items] items
    by (simp add: scripted_env_def demo_env_def truthy_features_def granule_fallback_def py_take_def demo_granule_def)
qed

lemma HLSClient_first_call:
  assumes "fromisoformat env dt = Some t0" and "30 < ordinal t0"
    and "ordinal t0 + 30 \<le> MAXORDINAL" and "\<bar>lat\<bar> < 90"
  shows "\<exists>box cs. fst (HLSClient_search_hls_items env n lat lon dt limit) =
           GetItems ''HLSL30.v2.0'' box (ordinal t0 - 30) (ordinal t0 + 30) limit # cs"
proof -
  have "0 < cos (radians lat)"
    using assms(4) by (rule cos_radians_pos)
  then have "HLSClient_deg_buffer lat 10000 \<noteq> None"
    by (simp add: HLSClient_deg_buffer_def Let_def)
  then obtain lat_buf lon_buf where b: "HLSClient_deg_buffer lat 10000 = Some (lat_buf, lon_buf)"
    by fastforce
  show ?thesis
    using assms(1-3) b
    by (auto simp: HLSClient_search_hls_items_def plus_days_def Let_def split: option.splits prod.splits)
qed

text \<open>
  C3, as the code has it. \<^const>\<open>search_hls_items\<close>: when the target date parses and both
  ends of the window are dates of the calendar, the window is the target date minus 15
  days to the earlier of the target date plus 15 days and today; every request carries
  that window; and when the window is inverted, which is when today is more than 15 days
  before the target, the search returns the empty list and sends nothing.
  \<^const>\<open>HLSClient_search_hls_items\<close> instead asks for 30 days either side of the target,
  whatever today is, and sends its first request even then.
\<close>

theorem search_window_clamped:
  "(search_window env dt = Inr (a, b) \<longrightarrow>
      (\<exists>t0. fromisoformat env dt = Some t0 \<and> a = ordinal t0 - 15 \<and>
            b = min (ordinal t0 + 15) (today env)) \<and>
      b \<le> today env \<and>
      (\<forall>c \<in> set (fst (search_hls_items env n lat lon dt limit)). call_window c = Some (a, b)) \<and>
      (b < a \<longrightarrow> search_hls_items env n lat lon dt limit = ([], Inr []))) \<and>
   (fromisoformat env dt = Some t0 \<and> 15 < ordinal t0 \<and> ordinal t0 + 15 \<le> MAXORDINAL \<longrightarrow>
      search_window env dt = Inr (ordinal t0 - 15, min (ordinal t0 + 15) (today env)) \<and>
      (today env < ordinal t0 - 15 \<longrightarrow>
         search_hls_items env n lat lon dt limit = ([], Inr []))) \<and>
   (fromisoformat env dt = Some t0 \<and> 30 < ordinal t0 \<and> ordinal t0 + 30 \<le> MAXORDINAL \<and>
    \<bar>lat\<bar> < 90 \<longrightarrow>
      (\<exists>box cs. fst (HLSClient_search_hls_items env n lat lon dt limit) =
         GetItems ''HLSL30.v2.0'' box (ordinal t0 - 30) (ordinal t0 + 30) limit # cs))"
proof -
  have w: "search_window env dt = Inr (ordinal t0 - 15, min (ordinal t0 + 15) (today env))"
    if "fromisoformat env dt = Some t0" and "15 < ordinal t0" and "ordinal t0 + 15 \<le> MAXORDINAL"
    using that by (simp add: search_window_def plus_days_def Let_def min_def)
  have clamp: "b \<le> today env" if "search_window env dt = Inr (a, b)"
    using search_window_Inr [OF that] by auto
  have far: "search_hls_items env n lat lon dt limit = ([], Inr [])"
    if "fromisoformat env dt = Some t0" and "15 < ordinal t0" and "ordinal t0 + 15 \<le> MAXORDINAL"
      and "today env < ordinal t0 - 15"
    using w [OF that(1-3)] that(4) by (intro search_inverted) auto
  show ?thesis
    using search_window_Inr [of env dt a b] clamp search_windows [of env dt a b n lat lon limit]
      search_inverted [of env dt a b n lat lon limit] w far
      HLSClient_first_call [of env dt t0 lat n lon limit]
    by blast
qed

theorem search_window_clamped_witness:
  "search_window demo_env ''2099-01-01'' = Inr (766265, 739923) \<and>
   today demo_env < 766280 - 15 \<and>
   search_hls_items demo_env 0 0 0 ''2099-01-01'' 20 = ([], Inr [])"
proof -
  have p: "fromisoformat demo_env ''2099-01-01'' =
      Some \<lparr>ordinal = 766280, tod_us = 0, utcoffset = None\<rparr>"
    by (simp add: demo_defs)
  show ?thesis
    using search_window_clamped
      [of demo_env "''2099-01-01''" 766265 739923 0 0 0 20
          "\<lparr>ordinal = 766280, tod_us = 0, utcoffset = None\<rparr>"] p
    by (simp add: MAXORDINAL_def demo_env_def)
qed

text \<open>
  C3 as stated fails. For the first of January 2099, with today the third of November
  2026, \<^const>\<open>HLSClient_search_hls_items\<close> sends two requests, for the window of 30 days
  either side of the target, all of it in the future. And for a target date in the last
  fifteen days of the year 9999 \<^const>\<open>search_hls_items\<close> does not return the empty list:
  the shift by 15 days raises \<^verbatim>\<open>OverflowError\<close>.
\<close>

theorem search_window_not_clamped:
  "map call_window (fst (HLSClient_search_hls_items demo_env 0 0 0 ''2099-01-01'' 10)) =
     [Some (766250, 766310), Some (766250, 766310)] \<and>
   today demo_env < 766250 \<and>
   search_hls_items demo_env 0 0 0 ''9999-12-25'' 20 = ([], Inl OverflowError)"
  by (simp add: HLSClient_search_hls_items_def HLSClient_deg_buffer_def radians_def plus_days_def MAXORDINAL_def Let_def
      search_hls_items_def search_window_def demo_defs)

subsection \<open>Band extraction and the pipeline\<close>

lemma length_bands_for_collection: "length (bands_for_collection c) = 6"
  by (simp add: bands_for_collection_def length_S30_BANDS length_L30_BANDS)

lemma collect_hrefs_length:
  "collect_hrefs asts bs hrefs0 = Inr hrefs \<Longrightarrow> length hrefs = length hrefs0 + length bs"
  by (induction bs arbitrary: hrefs0) (auto split: option.splits)

lemma read_hrefs_count:
  "read_hrefs env box hs a = Inr a' \<Longrightarrow> length (arrays a') = length (arrays a) + length hs"
proof (induction hs arbitrary: a)
  case Nil
  then show ?case by simp
next
  case (Cons h hs)
  then show ?case
    by (auto simp: Let_def split: if_splits option.splits)
qed

lemma extract_bands_count:
  "extract_bands env box items a = Inr a' \<Longrightarrow>
   length (arrays a') = length (arrays a) + 6 * length (filter has_all_bands items)"
proof (induction items arbitrary: a)
  case Nil
  then show ?case by simp
next
  case (Cons it items)
  show ?case
  proof (cases "collect_hrefs (assets it) (bands_for_collection (collection it)) []")
    case (Inl b)
    then have "\<not> has_all_bands it"
      by (simp add: has_all_bands_def)
    moreover have "extract_bands env box items (a\<lparr>status := ''Band '' @ b @ '' missing in item; skipping.''\<rparr>) = Inr a'"
      using Cons.prems Inl by (simp add: Let_def)
    ultimately show ?thesis
      using Cons.IH by fastforce
  next
    case (Inr hrefs)
    then have all: "has_all_bands it"
      by (simp add: has_all_bands_def)
    have six: "length hrefs = 6"
      using collect_hrefs_length [OF Inr] by (simp add: length_bands_for_collection)
    then have ne: "hrefs \<noteq> []"
      by auto
    from Cons.prems Inr ne obtain a1 where
      r: "read_hrefs env box hrefs a = Inr a1" and e: "extract_bands env box items a1 = Inr a'"
      by (auto simp: Let_def split: sum.splits)
    show ?thesis
      using read_hrefs_count [OF r] Cons.IH [OF e] six all by simp
  qed
qed

lemma denied_snoc:
  "denied env (cs @ [c]) i =
     (denied env cs i \<or>
      (i = length cs \<and>
       (case c of Probe h \<Rightarrow> http_probe env i h = Some 401 \<or> http_probe env i h = Some 403
        | _ \<Rightarrow> False)))"
proof (cases "i < length cs")
  case True
  then show ?thesis
    by (simp add: denied_def nth_append)
next
  case False
  then show ?thesis
    by (cases "i = length cs") (auto simp: denied_def split: call.splits)
qed

lemma clean_raster: "clean env (cs @ [RasterOpen h box]) = clean env cs"
  by (simp add: clean_def denied_snoc)

lemma clean_probe:
  "clean env (cs @ [Probe h]) =
     (clean env cs \<and> \<not> (http_probe env (length cs) h = Some 401 \<or> http_probe env (length cs) h = Some 403))"
  by (auto simp: clean_def denied_snoc)

lemma clean_probe_raster:
  "clean env (cs @ [Probe h, RasterOpen h box]) =
     (clean env cs \<and> \<not> (http_probe env (length cs) h = Some 401 \<or> http_probe env (length cs) h = Some 403))"
  using clean_raster [of env "cs @ [Probe h]" h box] by (simp add: clean_probe)

lemma read_hrefs_settled:
  "clean env (log a) \<Longrightarrow> settled env (read_hrefs env box hs a)"
proof (induction hs arbitrary: a)
  case Nil
  then show ?case by (simp add: settled_def)
next
  case (Cons h hs)
  show ?case
  proof (cases "http_probe env (length (log a)) h = Some 401 \<or> http_probe env (length (log a)) h = Some 403")
    case True
    then show ?thesis
      using Cons.prems by (auto simp: settled_def Let_def)
  next
    case False
    note np = this
    show ?thesis
    proof (cases "raster_read env (Suc (length (log a))) h box")
      case None
      then show ?thesis
        using np Cons.prems by (simp add: settled_def Let_def clean_probe_raster)
    next
      case (Some data)
      have "clean env (log a @ [Probe h, RasterOpen h box])"
        using np Cons.prems by (simp add: clean_probe_raster)
      then show ?thesis
        using np Some Cons.IH by (simp add: Let_def)
    qed
  qed
qed

lemma extract_bands_settled:
  "clean env (log a) \<Longrightarrow> settled env (extract_bands env box items a)"
proof (induction items arbitrary: a)
  case Nil
  then show ?case by (simp add: settled_def)
next
  case (Cons it items)
  show ?case
  proof (cases "collect_hrefs (assets it) (bands_for_collection (collection it)) []")
    case (Inl b)
    then show ?thesis
      using Cons by (simp add: Let_def)
  next
    case (Inr hrefs)
    show ?thesis
    proof (cases "hrefs = []")
      case True
      then show ?thesis using Inr Cons by (simp add: Let_def)
    next
      case False
      show ?thesis
      proof (cases "read_hrefs env box hrefs a")
        case (Inl stop)
        then show ?thesis
          using read_hrefs_settled [OF Cons.prems, of box hrefs] Inr False by (simp add: Let_def)
      next
        case (Inr a1)
        then have "clean env (log a1)"
          using read_hrefs_settled [OF Cons.prems, of box hrefs] by (simp add: settled_def)
        then show ?thesis
          using Cons.IH Inr \<open>collect_hrefs _ _ _ = Inr hrefs\<close> False by (simp add: Let_def)
      qed
    qed
  qed
qed

lemma settled_denied:
  assumes "settled env r" and "denied env (log (final_acc r)) i"
  shows "\<exists>a. r = Inl (Unauthorized, a) \<and> Suc i = length (log a) \<and> status a = UNAUTHORIZED_MSG"
proof (cases r)
  case (Inr a)
  then show ?thesis using assms by (simp add: settled_def clean_def final_acc_def)
next
  case (Inl p)
  obtain st a where p: "p = (st, a)" by (cases p)
  show ?thesis
  proof (cases st)
    case RasterFailed
    then show ?thesis using assms Inl p by (simp add: settled_def clean_def final_acc_def)
  next
    case Unauthorized
    then obtain pre h where l: "log a = pre @ [Probe h]" and c: "clean env pre" and s: "status a = UNAUTHORIZED_MSG"
      using assms(1) Inl p by (auto simp: settled_def)
    have "denied env (pre @ [Probe h]) i" using assms(2) Inl p l by (simp add: final_acc_def)
    then have "i = length pre" using c by (auto simp: denied_snoc clean_def)
    then show ?thesis using Inl p Unauthorized l s by simp
  qed
qed


lemma length_rank3: "length (rank3 env target items) \<le> 3"
  by (simp add: rank3_def)

lemma fetch_at_shape:
  fixes env s cs lat lon
  defines "r \<equiv> fetch_at env s cs lat lon"
  defines "cs1 \<equiv> fst (search_hls_items env (length cs) lat lon (date_str s) 20)"
  shows "(\<exists>e st. r = \<lparr>final = s\<lparr>fetch_status := st\<rparr>, ending = e, calls = cs @ cs1, written = []\<rparr> \<and>
            (e = NoItemsFound \<or> e = BackendMissing \<or> (\<exists>x. e = Uncaught x))) \<or>
         (\<exists>box items a0 stop a.
            extract_bands env box items a0 = Inl (stop, a) \<and> length items \<le> 3 \<and>
            arrays a0 = [] \<and> log a0 = cs @ cs1 \<and>
            r = \<lparr>final = s\<lparr>fetch_status := status a\<rparr>,
                 ending = (case stop of Unauthorized \<Rightarrow> UnauthorizedAsset
                           | RasterFailed \<Rightarrow> Uncaught RasterioError),
                 calls = log a, written = []\<rparr>) \<or>
         (\<exists>box items a0 a.
            extract_bands env box items a0 = Inr a \<and> length items \<le> 3 \<and>
            arrays a0 = [] \<and> log a0 = cs @ cs1 \<and> r = assemble env s lat lon a)"
proof (cases "search_hls_items env (length cs) lat lon (date_str s) 20")
  case (Pair c1 res)
  then have c1: "cs1 = c1" by (simp add: cs1_def)
  show ?thesis
  proof (cases res)
    case (Inl e)
    then have "r = \<lparr>final = s\<lparr>fetch_status := fetch_status s\<rparr>, ending = Uncaught e, calls = cs @ cs1, written = []\<rparr>"
      using Pair c1 by (simp add: r_def fetch_at_def)
    then show ?thesis by blast
  next
    case (Inr items)
    show ?thesis
    proof (cases "items = []")
      case True
      then have "r = \<lparr>final = s\<lparr>fetch_status := NO_ITEMS_MSG\<rparr>, ending = NoItemsFound, calls = cs @ cs1, written = []\<rparr>"
        using Pair Inr c1 by (simp add: r_def fetch_at_def)
      then show ?thesis by blast
    next
      case False
      note ne = this
      show ?thesis
      proof (cases "fromisoformat env (date_str s)")
        case None
        then have "r = \<lparr>final = s\<lparr>fetch_status := fetch_status s\<rparr>, ending = Uncaught ValueError, calls = cs @ cs1, written = []\<rparr>"
          using Pair Inr c1 ne by (simp add: r_def fetch_at_def)
        then show ?thesis by blast
      next
        case (Some t)
        show ?thesis
        proof (cases "have_rasterio env")
          case False
          then have "r = \<lparr>final = s\<lparr>fetch_status := BACKEND_MSG\<rparr>, ending = BackendMissing, calls = cs @ cs1, written = []\<rparr>"
            using Pair Inr c1 ne Some by (simp add: r_def fetch_at_def Let_def)
          then show ?thesis by blast
        next
          case True
          define box where "box = tile_box lat lon"
          define items3 where "items3 = rank3 env (as_utc t) items"
          define a0 where "a0 = start_acc env s (cs @ cs1)"
          have r: "r = (case extract_bands env box items3 a0 of
                          Inl (Unauthorized, a) \<Rightarrow>
                            \<lparr>final = s\<lparr>fetch_status := status a\<rparr>, ending = UnauthorizedAsset,
                             calls = log a, written = []\<rparr>
                        | Inl (RasterFailed, a) \<Rightarrow>
                            \<lparr>final = s\<lparr>fetch_status := status a\<rparr>,
                             ending = Uncaught RasterioError, calls = log a, written = []\<rparr>
                        | Inr a \<Rightarrow> assemble env s lat lon a)"
            using Pair Inr c1 ne Some True
            by (simp add: r_def fetch_at_def Let_def box_def items3_def a0_def)
          have l3: "length items3 \<le> 3" by (simp add: items3_def length_rank3)
          have a00: "arrays a0 = []" "log a0 = cs @ cs1"
            by (simp_all add: a0_def start_acc_def Let_def)
          show ?thesis
          proof (cases "extract_bands env box items3 a0")
            case (Inr a)
            then have "r = assemble env s lat lon a" using r by simp
            then show ?thesis using Inr l3 a00 by blast
          next
            case (Inl p)
            obtain stop a where p: "p = (stop, a)" by (cases p)
            have "r = \<lparr>final = s\<lparr>fetch_status := status a\<rparr>,
                 ending = (case stop of Unauthorized \<Rightarrow> UnauthorizedAsset
                           | RasterFailed \<Rightarrow> Uncaught RasterioError),
                 calls = log a, written = []\<rparr>"
              using r Inl p by (cases stop) simp_all
            then show ?thesis using Inl p l3 a00 by blast
          qed
        qed
      qed
    qed
  qed
qed


lemma fetch_at_cases [case_names early halted completed]:
  obtains
    (early) e st where
      "fetch_at env s cs lat lon =
         \<lparr>final = s\<lparr>fetch_status := st\<rparr>, ending = e,
          calls = cs @ fst (search_hls_items env (length cs) lat lon (date_str s) 20),
          written = []\<rparr>"
      and "e = NoItemsFound \<or> e = BackendMissing \<or> (\<exists>x. e = Uncaught x)"
  | (halted) box items a0 stop a where
      "extract_bands env box items a0 = Inl (stop, a)" and "length items \<le> 3"
      and "arrays a0 = []"
      and "log a0 = cs @ fst (search_hls_items env (length cs) lat lon (date_str s) 20)"
      and "fetch_at env s cs lat lon =
         \<lparr>final = s\<lparr>fetch_status := status a\<rparr>,
          ending = (case stop of Unauthorized \<Rightarrow> UnauthorizedAsset
                    | RasterFailed \<Rightarrow> Uncaught RasterioError),
          calls = log a, written = []\<rparr>"
  | (completed) box items a0 a where
      "extract_bands env box items a0 = Inr a" and "length items \<le> 3"
      and "arrays a0 = []"
      and "log a0 = cs @ fst (search_hls_items env (length cs) lat lon (date_str s) 20)"
      and "fetch_at env s cs lat lon = assemble env s lat lon a"
  using fetch_at_shape [of env s cs lat lon] by blast

lemma assemble_short:
  "length (arrays a) \<noteq> 18 \<Longrightarrow>
   assemble env s lat lon a =
     \<lparr>final = s\<lparr>fetch_status := expected_msg (length (arrays a))\<rparr>,
      ending = ExpectedEighteen (length (arrays a)), calls = log a, written = []\<rparr>"
  by (simp add: assemble_def)

lemma assemble_calls: "calls (assemble env s lat lon a) = log a"
  by (simp add: assemble_def Let_def split: option.splits prod.splits)

lemma assemble_full:
  "length (arrays a) = 18 \<Longrightarrow>
   ending (assemble env s lat lon a) = TileReady \<or>
   (\<exists>x. ending (assemble env s lat lon a) = Uncaught x)"
  by (simp add: assemble_def Let_def split: option.splits prod.splits)

lemma assemble_frame:
  "date_str (final (assemble env s lat lon a)) = date_str s \<and>
   input_address (final (assemble env s lat lon a)) = input_address s \<and>
   input_lat (final (assemble env s lat lon a)) = input_lat s \<and>
   input_lon (final (assemble env s lat lon a)) = input_lon s"
  by (simp add: assemble_def Let_def split: option.splits prod.splits)

lemma assemble_outputs:
  "ending (assemble env s lat lon a) \<noteq> TileReady \<Longrightarrow>
   tile_path (final (assemble env s lat lon a)) = tile_path s \<and>
   preview_png (final (assemble env s lat lon a)) = preview_png s"
  by (simp add: assemble_def Let_def split: option.splits prod.splits if_splits)

lemma assemble_written:
  "written (assemble env s lat lon a) \<noteq> [] \<Longrightarrow>
   length (arrays a) = 18 \<and>
   (ending (assemble env s lat lon a) = TileReady \<or>
    ending (assemble env s lat lon a) = Uncaught RasterioError)"
  by (simp add: assemble_def Let_def split: option.splits prod.splits if_splits)

lemma assemble_ready:
  "ending (assemble env s lat lon a) = TileReady \<Longrightarrow>
   (\<exists>out_tif rest. written (assemble env s lat lon a) = out_tif # rest \<and>
      tile_path (final (assemble env s lat lon a)) = ''/'' @ basename out_tif) \<and>
   fetch_status (final (assemble env s lat lon a)) = READY_MSG \<and>
   length (arrays a) = 18"
  by (simp add: assemble_def Let_def split: option.splits prod.splits if_splits)

lemma locate_frame:
  assumes "locate env s = (s', la, lo, cs)"
  shows "tile_path s' = tile_path s \<and> preview_png s' = preview_png s \<and>
         date_str s' = date_str s \<and> input_address s' = input_address s \<and>
         (cs = [] \<and> input_lat s' = input_lat s \<and> input_lon s' = input_lon s \<or>
          cs = [Geocode (py_strip env (input_address s))])"
  using assms
  by (auto simp: locate_def Let_def split: if_splits option.splits prod.splits)

lemma fetch_tile_cases:
  "\<exists>s' la lo cs. locate env s = (s', la, lo, cs) \<and>
     ((la = None \<or> lo = None) \<and>
        fetch_tile env s = \<lparr>final = s'\<lparr>fetch_status := PROVIDE_MSG\<rparr>, ending = ProvideLatLon,
                            calls = cs, written = []\<rparr> \<or>
      (\<exists>lat lon. la = Some lat \<and> lo = Some lon \<and> fetch_tile env s = fetch_at env s' cs lat lon))"
proof -
  obtain s' la lo cs where l: "locate env s = (s', la, lo, cs)"
    by (cases "locate env s") auto
  show ?thesis
    using l by (cases la; cases lo) (simp_all add: fetch_tile_def)
qed


lemma fetch_at_frame:
  fixes env s cs lat lon
  defines "r \<equiv> fetch_at env s cs lat lon"
  shows "date_str (final r) = date_str s \<and> input_address (final r) = input_address s \<and>
         input_lat (final r) = input_lat s \<and> input_lon (final r) = input_lon s \<and>
         (ending r \<noteq> TileReady \<longrightarrow>
            tile_path (final r) = tile_path s \<and> preview_png (final r) = preview_png s) \<and>
         (early_return (ending r) \<longrightarrow> written r = []) \<and>
         (ending r = TileReady \<longrightarrow>
            (\<exists>out_tif rest. written r = out_tif # rest \<and>
               tile_path (final r) = ''/'' @ basename out_tif))"
proof (cases rule: fetch_at_cases [of env s cs lat lon])
  case (early e st)
  then show ?thesis
    by (auto simp: r_def)
next
  case (halted box items a0 stop a)
  then show ?thesis
    by (cases stop) (simp_all add: r_def)
next
  case (completed box items a0 a)
  note r = completed(5)
  have "early_return (ending (assemble env s lat lon a)) \<Longrightarrow> written (assemble env s lat lon a) = []"
    using assemble_written [of env s lat lon a]
    by (cases "written (assemble env s lat lon a) = []") auto
  then show ?thesis
    unfolding r_def r
    using assemble_frame [of env s lat lon a] assemble_outputs [of env s lat lon a]
      assemble_ready [of env s lat lon a]
    by blast
qed

lemma read_hrefs_log: "prefix (log a) (log (final_acc (read_hrefs env box hs a)))"
proof (induction hs arbitrary: a)
  case Nil
  then show ?case by (simp add: final_acc_def)
next
  case (Cons h hs)
  show ?case
  proof (cases "http_probe env (length (log a)) h = Some 401 \<or> http_probe env (length (log a)) h = Some 403")
    case True
    then show ?thesis by (auto simp: final_acc_def Let_def)
  next
    case False
    show ?thesis
    proof (cases "raster_read env (Suc (length (log a))) h box")
      case None
      then show ?thesis using False by (simp add: final_acc_def Let_def)
    next
      case (Some data)
      let ?a2 = "a\<lparr>log := log a @ [Probe h, RasterOpen h box], arrays := arrays a @ [data],
                 meta_template := (case meta_template a of None \<Rightarrow> Some (meta_of data) | Some m \<Rightarrow> Some m)\<rparr>"
      have eq: "read_hrefs env box (h # hs) a = read_hrefs env box hs ?a2"
        using False Some by (simp add: Let_def)
      have "prefix (log a) (log ?a2)"
        by simp
      also have "prefix (log ?a2) (log (final_acc (read_hrefs env box hs ?a2)))"
        by (rule Cons.IH)
      finally show ?thesis
        by (simp only: eq)
    qed
  qed
qed

lemma extract_bands_log: "prefix (log a) (log (final_acc (extract_bands env box items a)))"
proof (induction items arbitrary: a)
  case Nil
  then show ?case by (simp add: final_acc_def)
next
  case (Cons it items)
  show ?case
  proof (cases "collect_hrefs (assets it) (bands_for_collection (collection it)) []")
    case (Inl b)
    then show ?thesis
      using Cons.IH [of "a\<lparr>status := ''Band '' @ b @ '' missing in item; skipping.''\<rparr>"]
      by (simp add: Let_def)
  next
    case (Inr hrefs)
    show ?thesis
    proof (cases "hrefs = []")
      case True
      then show ?thesis using Inr Cons.IH by (simp add: Let_def)
    next
      case False
      show ?thesis
      proof (cases "read_hrefs env box hrefs a")
        case (Inl stop)
        then show ?thesis
          using read_hrefs_log [of a env box hrefs] Inr False by (simp add: Let_def)
      next
        case r: (Inr a1)
        have eq: "extract_bands env box (it # items) a = extract_bands env box items a1"
          using Inr False r by (simp add: Let_def)
        have "prefix (log a) (log a1)"
          using read_hrefs_log [of a env box hrefs] r by (simp add: final_acc_def)
        also have "prefix (log a1) (log (final_acc (extract_bands env box items a1)))"
          by (rule Cons.IH)
        finally show ?thesis
          by (simp only: eq)
      qed
    qed
  qed
qed


lemma fetch_at_calls:
  "prefix (cs @ fst (search_hls_items env (length cs) lat lon (date_str s) 20))
     (calls (fetch_at env s cs lat lon))"
proof (cases rule: fetch_at_cases [of env s cs lat lon])
  case (early e st)
  then show ?thesis by simp
next
  case (halted box items a0 stop a)
  then show ?thesis
    using extract_bands_log [of a0 env box items] by (simp add: final_acc_def)
next
  case (completed box items a0 a)
  then show ?thesis
    using extract_bands_log [of a0 env box items] by (simp add: final_acc_def assemble_calls)
qed

lemma search_no_probe:
  "c \<in> set (fst (search_hls_items env n lat lon dt limit)) \<Longrightarrow> call_window c \<noteq> None"
proof (cases "search_window env dt")
  case (Inl e)
  assume "c \<in> set (fst (search_hls_items env n lat lon dt limit))"
  then show ?thesis using Inl by (simp add: search_hls_items_def)
next
  case (Inr w)
  assume c: "c \<in> set (fst (search_hls_items env n lat lon dt limit))"
  obtain a b where "w = (a, b)" by (cases w)
  then show ?thesis using search_windows [of env dt a b n lat lon limit] Inr c by auto
qed

lemma clean_no_probe: "(\<And>c. c \<in> set cs \<Longrightarrow> \<forall>h. c \<noteq> Probe h) \<Longrightarrow> clean env cs"
  unfolding clean_def denied_def
  by (auto split: call.splits)

lemma fetch_at_denied:
  fixes env s cs lat lon
  defines "r \<equiv> fetch_at env s cs lat lon"
  assumes cs: "cs = [] \<or> (\<exists>q. cs = [Geocode q])"
  shows "(denied env (calls r) i \<longrightarrow>
            ending r = UnauthorizedAsset \<and> Suc i = length (calls r)) \<and>
         (ending r = UnauthorizedAsset \<longrightarrow>
            calls r \<noteq> [] \<and> denied env (calls r) (length (calls r) - 1) \<and>
            fetch_status (final r) = UNAUTHORIZED_MSG \<and> written r = [])"
proof -
  let ?cs1 = "fst (search_hls_items env (length cs) lat lon (date_str s) 20)"
  have cl: "clean env (cs @ ?cs1)"
  proof (rule clean_no_probe)
    fix c assume "c \<in> set (cs @ ?cs1)"
    then show "\<forall>h. c \<noteq> Probe h"
      using cs search_no_probe [of c env "length cs" lat lon "date_str s" 20] by auto
  qed
  show ?thesis
  proof (cases rule: fetch_at_cases [of env s cs lat lon])
    case (early e st)
    then show ?thesis using cl by (auto simp: r_def clean_def)
  next
    case (completed box items a0 a)
    have "settled env (extract_bands env box items a0)"
      using cl completed(4) by (intro extract_bands_settled) simp
    then have "clean env (log a)"
      using completed(1) by (simp add: settled_def)
    moreover have "ending (assemble env s lat lon a) \<noteq> UnauthorizedAsset"
      by (simp add: assemble_def Let_def split: option.splits prod.splits)
    ultimately show ?thesis
      using completed(5) by (simp add: r_def assemble_calls clean_def)
  next
    case (halted box items a0 stop a)
    have st: "settled env (extract_bands env box items a0)"
      using cl halted(4) by (intro extract_bands_settled) simp
    show ?thesis
    proof (cases stop)
      case RasterFailed
      then have "clean env (log a)"
        using st halted(1) by (simp add: settled_def)
      then show ?thesis
        using halted(5) RasterFailed by (simp add: r_def clean_def)
    next
      case Unauthorized
      then obtain pre h where l: "log a = pre @ [Probe h]" and c: "clean env pre"
        and d: "http_probe env (length pre) h = Some 401 \<or> http_probe env (length pre) h = Some 403"
        and m: "status a = UNAUTHORIZED_MSG"
        using st halted(1) by (auto simp: settled_def)
      have last: "denied env (log a) (length pre)"
        using d by (simp add: l denied_snoc)
      have only: "denied env (log a) i \<Longrightarrow> i = length pre"
        using c by (auto simp: l denied_snoc clean_def)
      show ?thesis
        using halted(5) Unauthorized l m last only by (auto simp: r_def)
    qed
  qed
qed

lemmas run_defs =
  model_defs demo_defs STARTING_MSG_def GEOCODING_MSG_def NO_ITEMS_MSG_def READY_MSG_def
  UNAUTHORIZED_MSG_def NO_TOKEN_MSG_def PROVIDE_MSG_def BACKEND_MSG_def ELLIPSIS_def
  EM_DASH_def

lemma fetch_tile_via [case_names unresolved resolved]:
  obtains
    (unresolved) s' cs where
      "fetch_tile env s =
         \<lparr>final = s'\<lparr>fetch_status := PROVIDE_MSG\<rparr>, ending = ProvideLatLon, calls = cs,
          written = []\<rparr>"
      and "tile_path s' = tile_path s" and "preview_png s' = preview_png s"
      and "date_str s' = date_str s" and "input_address s' = input_address s"
      and "cs = [] \<and> input_lat s' = input_lat s \<and> input_lon s' = input_lon s \<or>
           cs = [Geocode (py_strip env (input_address s))]"
  | (resolved) s' cs lat lon where
      "fetch_tile env s = fetch_at env s' cs lat lon"
      and "tile_path s' = tile_path s" and "preview_png s' = preview_png s"
      and "date_str s' = date_str s" and "input_address s' = input_address s"
      and "cs = [] \<and> input_lat s' = input_lat s \<and> input_lon s' = input_lon s \<or>
           cs = [Geocode (py_strip env (input_address s))]"
proof -
  obtain s' la lo cs where l: "locate env s = (s', la, lo, cs)"
    and c: "(la = None \<or> lo = None) \<and>
        fetch_tile env s = \<lparr>final = s'\<lparr>fetch_status := PROVIDE_MSG\<rparr>, ending = ProvideLatLon,
                            calls = cs, written = []\<rparr> \<or>
      (\<exists>lat lon. la = Some lat \<and> lo = Some lon \<and> fetch_tile env s = fetch_at env s' cs lat lon)"
    using fetch_tile_cases [of env s] by blast
  note f = locate_frame [OF l]
  from c show thesis
  proof
    assume "(la = None \<or> lo = None) \<and>
        fetch_tile env s = \<lparr>final = s'\<lparr>fetch_status := PROVIDE_MSG\<rparr>, ending = ProvideLatLon,
                            calls = cs, written = []\<rparr>"
    then show thesis using f unresolved by blast
  next
    assume "\<exists>lat lon. la = Some lat \<and> lo = Some lon \<and> fetch_tile env s = fetch_at env s' cs lat lon"
    then show thesis using f resolved by blast
  qed
qed

lemma search_first_call:
  assumes "search_window env dt = Inr (a, b)" and "a \<le> b"
  shows "\<exists>rest. fst (search_hls_items env n lat lon dt limit) = PostIntersects lon lat a b limit # rest"
  using assms
  by (simp add: search_hls_items_def Let_def split: option.splits prod.splits)

lemma fetch_at_not_provide: "ending (fetch_at env s cs lat lon) \<noteq> ProvideLatLon"
proof (cases rule: fetch_at_cases [of env s cs lat lon])
  case (early e st)
  then show ?thesis by auto
next
  case (halted box items a0 stop a)
  then show ?thesis by (cases stop) simp_all
next
  case (completed box items a0 a)
  then show ?thesis
    by (simp add: assemble_def Let_def split: option.splits prod.splits)
qed

lemma fetch_tile_frame:
  fixes env s
  defines "r \<equiv> fetch_tile env s"
  shows "date_str (final r) = date_str s \<and> input_address (final r) = input_address s \<and>
         (ending r \<noteq> TileReady \<longrightarrow>
            tile_path (final r) = tile_path s \<and> preview_png (final r) = preview_png s) \<and>
         (early_return (ending r) \<longrightarrow> written r = []) \<and>
         (ending r = TileReady \<longrightarrow>
            (\<exists>out_tif rest. written r = out_tif # rest \<and>
               tile_path (final r) = ''/'' @ basename out_tif)) \<and>
         (input_lat (final r) \<noteq> input_lat s \<or> input_lon (final r) \<noteq> input_lon s \<longrightarrow>
            (\<exists>rest. calls r = Geocode (py_strip env (input_address s)) # rest))"
proof (cases rule: fetch_tile_via [of env s])
  case (unresolved s' cs)
  then show ?thesis
    by (auto simp: r_def)
next
  case (resolved s' cs lat lon)
  note fr = fetch_at_frame [of env s' cs lat lon]
  have pre: "prefix cs (calls (fetch_at env s' cs lat lon))"
    using fetch_at_calls [of cs env lat lon s'] by (rule append_prefixD)
  have geo: "\<exists>rest. calls (fetch_at env s' cs lat lon) = Geocode (py_strip env (input_address s)) # rest"
    if "cs = [Geocode (py_strip env (input_address s))]"
    using pre that by (auto simp: prefix_def)
  show ?thesis
    unfolding r_def resolved(1)
    using fr resolved(2-6) geo by auto
qed


lemma fetch_tile_denied:
  fixes env s
  defines "r \<equiv> fetch_tile env s"
  shows "(denied env (calls r) i \<longrightarrow>
            ending r = UnauthorizedAsset \<and> Suc i = length (calls r)) \<and>
         (ending r = UnauthorizedAsset \<longrightarrow>
            calls r \<noteq> [] \<and> denied env (calls r) (length (calls r) - 1) \<and>
            fetch_status (final r) = UNAUTHORIZED_MSG \<and> written r = [])"
proof (cases rule: fetch_tile_via [of env s])
  case (unresolved s' cs)
  then have "\<not> denied env (calls r) i"
    by (auto simp: r_def denied_def)
  then show ?thesis
    using unresolved(1) by (simp add: r_def)
next
  case (resolved s' cs lat lon)
  have "cs = [] \<or> (\<exists>q. cs = [Geocode q])"
    using resolved(6) by blast
  then show ?thesis
    unfolding r_def resolved(1) by (rule fetch_at_denied)
qed

lemma fetch_at_extracted:
  assumes "search_hls_items env (length cs) lat lon (date_str s) 20 = (cs1, Inr items)"
    and "items \<noteq> []" and "fromisoformat env (date_str s) = Some t" and "have_rasterio env"
    and "extract_bands env (tile_box lat lon) (rank3 env (as_utc t) items)
           (start_acc env s (cs @ cs1)) = Inr a"
  shows "fetch_at env s cs lat lon = assemble env s lat lon a"
  using assms by (simp add: fetch_at_def Let_def)

lemma fetch_at_reached:
  assumes "ending (fetch_at env s cs lat lon) = ExpectedEighteen n \<or>
           written (fetch_at env s cs lat lon) \<noteq> []"
  shows "\<exists>cs1 items t a.
           search_hls_items env (length cs) lat lon (date_str s) 20 = (cs1, Inr items) \<and>
           items \<noteq> [] \<and> fromisoformat env (date_str s) = Some t \<and> have_rasterio env \<and>
           extract_bands env (tile_box lat lon) (rank3 env (as_utc t) items)
             (start_acc env s (cs @ cs1)) = Inr a"
  using assms
  by (auto simp: fetch_at_def Let_def
      split: prod.splits sum.splits if_splits option.splits halt.splits)

lemma fetch_tile_located:
  assumes "locate env s = (s', Some lat, Some lon, cs)"
  shows "fetch_tile env s = fetch_at env s' cs lat lon"
  using assms by (simp add: fetch_tile_def)

lemma fetch_tile_reached:
  assumes "ending (fetch_tile env s) = ExpectedEighteen n \<or> written (fetch_tile env s) \<noteq> []"
  shows "\<exists>s' lat lon cs. locate env s = (s', Some lat, Some lon, cs)"
proof -
  obtain s' la lo cs where l: "locate env s = (s', la, lo, cs)"
    by (cases "locate env s") auto
  show ?thesis
    using assms l by (cases la; cases lo) (auto simp: fetch_tile_def)
qed

lemma start_acc_arrays: "arrays (start_acc env s cs) = []"
  by (simp add: start_acc_def Let_def)

text \<open>
  C1. When the loops of the extraction end, the stack holds six arrays for every
  acquisition that has its six bands and none for the others (\<open>a0\<close> is the state at
  the start, \<open>a1\<close> at the end). For a run: when the Locator gives a coordinate, the
  search gives candidates, the date parses, the raster library is there and the loops
  over the three selected candidates end with the stack \<open>a\<close>, that stack has six arrays
  for each selected candidate that has its six bands (0, 6, 12 or 18 in all) and the run
  goes on with it; if it does not have 18 arrays, the run ends at the count check with
  the status that reports the number of arrays of \<open>a\<close>, having written no file and with
  the tile and preview paths as they were; if the run wrote a file, \<open>a\<close> has 18 arrays.
  Conversely, a run that ends at the count check reporting \<open>n\<close>, or that opened a file
  for writing, is such a run: \<open>n\<close> is the number of arrays of its own stack (0, 6 or
  12), and a run that wrote a file had 18 arrays from three candidates with all their
  bands.
\<close>

theorem band_stack_complete:
  "(extract_bands env box its a0 = Inr a1 \<longrightarrow>
      length (arrays a1) = length (arrays a0) + 6 * length (filter has_all_bands its)) \<and>
   (locate env s = (s', Some lat, Some lon, cs) \<and>
    search_hls_items env (length cs) lat lon (date_str s') 20 = (cs1, Inr items) \<and>
    items \<noteq> [] \<and> fromisoformat env (date_str s') = Some t \<and> have_rasterio env \<and>
    extract_bands env (tile_box lat lon) (rank3 env (as_utc t) items)
      (start_acc env s' (cs @ cs1)) = Inr a \<longrightarrow>
      length (arrays a) = 6 * length (filter has_all_bands (rank3 env (as_utc t) items)) \<and>
      length (arrays a) \<in> {0, 6, 12, 18} \<and>
      fetch_tile env s = assemble env s' lat lon a \<and>
      (length (arrays a) \<noteq> 18 \<longrightarrow>
         fetch_tile env s =
           \<lparr>final = s'\<lparr>fetch_status := expected_msg (length (arrays a))\<rparr>,
            ending = ExpectedEighteen (length (arrays a)), calls = log a, written = []\<rparr> \<and>
         tile_path (final (fetch_tile env s)) = tile_path s \<and>
         preview_png (final (fetch_tile env s)) = preview_png s) \<and>
      (written (fetch_tile env s) \<noteq> [] \<longrightarrow> length (arrays a) = 18)) \<and>
   (ending (fetch_tile env s) = ExpectedEighteen n \<or> written (fetch_tile env s) \<noteq> [] \<longrightarrow>
      (\<exists>s' lat lon cs cs1 items t a.
         locate env s = (s', Some lat, Some lon, cs) \<and>
         search_hls_items env (length cs) lat lon (date_str s') 20 = (cs1, Inr items) \<and>
         items \<noteq> [] \<and> fromisoformat env (date_str s') = Some t \<and> have_rasterio env \<and>
         extract_bands env (tile_box lat lon) (rank3 env (as_utc t) items)
           (start_acc env s' (cs @ cs1)) = Inr a \<and>
         (ending (fetch_tile env s) = ExpectedEighteen n \<longrightarrow>
            n = length (arrays a) \<and> n \<noteq> 18 \<and> (n = 0 \<or> n = 6 \<or> n = 12) \<and>
            fetch_status (final (fetch_tile env s)) = expected_msg n \<and>
            written (fetch_tile env s) = []) \<and>
         (written (fetch_tile env s) \<noteq> [] \<longrightarrow>
            length (arrays a) = 18 \<and>
            length (filter has_all_bands (rank3 env (as_utc t) items)) = 3)))"
proof -
  have count: "length (arrays a1) = length (arrays a0) + 6 * length (filter has_all_bands its)"
    if "extract_bands env box its a0 = Inr a1" for box its a0 a1
    using that by (rule extract_bands_count)
  have run: "length (arrays a) = 6 * length (filter has_all_bands (rank3 env (as_utc t) items)) \<and>
      length (arrays a) \<in> {0, 6, 12, 18} \<and>
      fetch_tile env s = assemble env s' lat lon a \<and>
      (length (arrays a) \<noteq> 18 \<longrightarrow>
         fetch_tile env s =
           \<lparr>final = s'\<lparr>fetch_status := expected_msg (length (arrays a))\<rparr>,
            ending = ExpectedEighteen (length (arrays a)), calls = log a, written = []\<rparr> \<and>
         tile_path (final (fetch_tile env s)) = tile_path s \<and>
         preview_png (final (fetch_tile env s)) = preview_png s) \<and>
      (written (fetch_tile env s) \<noteq> [] \<longrightarrow> length (arrays a) = 18)"
    if l: "locate env s = (s', Some lat, Some lon, cs)"
      and f: "search_hls_items env (length cs) lat lon (date_str s') 20 = (cs1, Inr items)"
      and i: "items \<noteq> []" and d: "fromisoformat env (date_str s') = Some t"
      and h: "have_rasterio env"
      and x: "extract_bands env (tile_box lat lon) (rank3 env (as_utc t) items)
                (start_acc env s' (cs @ cs1)) = Inr a"
    for s' lat lon cs cs1 items t a
  proof -
    let ?sel = "rank3 env (as_utc t) items"
    have n: "length (arrays a) = 6 * length (filter has_all_bands ?sel)"
      using count [OF x] by (simp add: start_acc_arrays)
    have "length (filter has_all_bands ?sel) \<le> length ?sel"
      by (rule length_filter_le)
    then have "length (filter has_all_bands ?sel) \<le> 3"
      using length_rank3 [of env "as_utc t" items] by (rule order_trans)
    then have r: "length (arrays a) \<in> {0, 6, 12, 18}"
      unfolding n by (cases "length (filter has_all_bands ?sel)" rule: nat.exhaust) auto
    have e: "fetch_tile env s = assemble env s' lat lon a"
      using fetch_tile_located [OF l] fetch_at_extracted [OF f i d h x] by simp
    have fr: "tile_path s' = tile_path s \<and> preview_png s' = preview_png s"
      using locate_frame [OF l] by simp
    have short: "length (arrays a) \<noteq> 18 \<longrightarrow>
         fetch_tile env s =
           \<lparr>final = s'\<lparr>fetch_status := expected_msg (length (arrays a))\<rparr>,
            ending = ExpectedEighteen (length (arrays a)), calls = log a, written = []\<rparr> \<and>
         tile_path (final (fetch_tile env s)) = tile_path s \<and>
         preview_png (final (fetch_tile env s)) = preview_png s"
      using fr by (simp add: e assemble_short)
    have w: "written (fetch_tile env s) \<noteq> [] \<longrightarrow> length (arrays a) = 18"
      unfolding e using assemble_written [of env s' lat lon a] by blast
    show ?thesis
      using n r e short w by blast
  qed
  have conv: "\<exists>s' lat lon cs cs1 items t a.
         locate env s = (s', Some lat, Some lon, cs) \<and>
         search_hls_items env (length cs) lat lon (date_str s') 20 = (cs1, Inr items) \<and>
         items \<noteq> [] \<and> fromisoformat env (date_str s') = Some t \<and> have_rasterio env \<and>
         extract_bands env (tile_box lat lon) (rank3 env (as_utc t) items)
           (start_acc env s' (cs @ cs1)) = Inr a \<and>
         (ending (fetch_tile env s) = ExpectedEighteen n \<longrightarrow>
            n = length (arrays a) \<and> n \<noteq> 18 \<and> (n = 0 \<or> n = 6 \<or> n = 12) \<and>
            fetch_status (final (fetch_tile env s)) = expected_msg n \<and>
            written (fetch_tile env s) = []) \<and>
         (written (fetch_tile env s) \<noteq> [] \<longrightarrow>
            length (arrays a) = 18 \<and>
            length (filter has_all_bands (rank3 env (as_utc t) items)) = 3)"
    if c: "ending (fetch_tile env s) = ExpectedEighteen n \<or> written (fetch_tile env s) \<noteq> []"
  proof -
    obtain s' lat lon cs where l: "locate env s = (s', Some lat, Some lon, cs)"
      using fetch_tile_reached [OF c] by blast
    note e = fetch_tile_located [OF l]
    obtain cs1 items t a where
      f: "search_hls_items env (length cs) lat lon (date_str s') 20 = (cs1, Inr items)"
      and i: "items \<noteq> []" and d: "fromisoformat env (date_str s') = Some t"
      and h: "have_rasterio env"
      and x: "extract_bands env (tile_box lat lon) (rank3 env (as_utc t) items)
                (start_acc env s' (cs @ cs1)) = Inr a"
      using fetch_at_reached [of env s' cs lat lon n] c unfolding e by blast
    note r = run [OF l f i d h x]
    have a: "fetch_tile env s = assemble env s' lat lon a"
      using r by blast
    have n: "length (arrays a) = 6 * length (filter has_all_bands (rank3 env (as_utc t) items))"
      using r by blast
    have one: "ending (fetch_tile env s) = ExpectedEighteen n \<longrightarrow>
            n = length (arrays a) \<and> n \<noteq> 18 \<and> (n = 0 \<or> n = 6 \<or> n = 12) \<and>
            fetch_status (final (fetch_tile env s)) = expected_msg n \<and>
            written (fetch_tile env s) = []"
    proof
      assume en: "ending (fetch_tile env s) = ExpectedEighteen n"
      have ne: "length (arrays a) \<noteq> 18"
      proof
        assume "length (arrays a) = 18"
        then show False
          using assemble_full [of a env s' lat lon] en unfolding a by auto
      qed
      then have eq: "fetch_tile env s =
           \<lparr>final = s'\<lparr>fetch_status := expected_msg (length (arrays a))\<rparr>,
            ending = ExpectedEighteen (length (arrays a)), calls = log a, written = []\<rparr>"
        using r by blast
      then have nn: "n = length (arrays a)"
        using en by simp
      have "length (arrays a) \<in> {0, 6, 12, 18}"
        using r by blast
      then have "n = 0 \<or> n = 6 \<or> n = 12"
        using ne nn by auto
      then show "n = length (arrays a) \<and> n \<noteq> 18 \<and> (n = 0 \<or> n = 6 \<or> n = 12) \<and>
            fetch_status (final (fetch_tile env s)) = expected_msg n \<and>
            written (fetch_tile env s) = []"
        using nn ne eq by simp
    qed
    have two: "written (fetch_tile env s) \<noteq> [] \<longrightarrow>
            length (arrays a) = 18 \<and>
            length (filter has_all_bands (rank3 env (as_utc t) items)) = 3"
    proof
      assume "written (fetch_tile env s) \<noteq> []"
      then have "length (arrays a) = 18"
        using r by blast
      then show "length (arrays a) = 18 \<and>
            length (filter has_all_bands (rank3 env (as_utc t) items)) = 3"
        using n by simp
    qed
    show ?thesis
      using l f i d h x one two by blast
  qed
  show ?thesis
    using count [of box its a0 a1] run [of s' lat lon cs cs1 items t a] conv by blast
qed

text \<open>
  A run in which the second of three candidates has only two of its bands: the stack has
  12 arrays, the run reports 12 and writes nothing.
\<close>

theorem band_stack_complete_witness:
  "locate (scripted_env [Some [demo_item ''HLSS30.v2.0'' ''2023-05-30T10:30:00Z'', demo_partial_item,
                               demo_item ''HLSS30.v2.0'' ''2023-06-09T10:30:00Z'']] None) demo_state =
     (demo_state\<lparr>fetch_status := STARTING_MSG\<rparr>, Some 0, Some 0, []) \<and>
   search_hls_items
       (scripted_env [Some [demo_item ''HLSS30.v2.0'' ''2023-05-30T10:30:00Z'', demo_partial_item,
                            demo_item ''HLSS30.v2.0'' ''2023-06-09T10:30:00Z'']] None)
       0 0 0 ''2023-06-01'' 20 =
     ([PostIntersects 0 0 738657 738687 20],
      Inr [demo_item ''HLSS30.v2.0'' ''2023-05-30T10:30:00Z'', demo_partial_item,
           demo_item ''HLSS30.v2.0'' ''2023-06-09T10:30:00Z'']) \<and>
   (\<exists>a. extract_bands
          (scripted_env [Some [demo_item ''HLSS30.v2.0'' ''2023-05-30T10:30:00Z'', demo_partial_item,
                               demo_item ''HLSS30.v2.0'' ''2023-06-09T10:30:00Z'']] None)
          (tile_box 0 0)
          (rank3 (scripted_env [Some [demo_item ''HLSS30.v2.0'' ''2023-05-30T10:30:00Z'',
                                      demo_partial_item,
                                      demo_item ''HLSS30.v2.0'' ''2023-06-09T10:30:00Z'']] None)
             \<lparr>ordinal = 738672, tod_us = 0, utcoffset = Some 0\<rparr>
             [demo_item ''HLSS30.v2.0'' ''2023-05-30T10:30:00Z'', demo_partial_item,
              demo_item ''HLSS30.v2.0'' ''2023-06-09T10:30:00Z''])
          (start_acc
             (scripted_env [Some [demo_item ''HLSS30.v2.0'' ''2023-05-30T10:30:00Z'',
                                  demo_partial_item,
                                  demo_item ''HLSS30.v2.0'' ''2023-06-09T10:30:00Z'']] None)
             (demo_state\<lparr>fetch_status := STARTING_MSG\<rparr>)
             [PostIntersects 0 0 738657 738687 20]) = Inr a \<and>
        length (arrays a) = 12) \<and>
   length (filter has_all_bands
       (rank3 (scripted_env [Some [demo_item ''HLSS30.v2.0'' ''2023-05-30T10:30:00Z'',
                                   demo_partial_item,
                                   demo_item ''HLSS30.v2.0'' ''2023-06-09T10:30:00Z'']] None)
          \<lparr>ordinal = 738672, tod_us = 0, utcoffset = Some 0\<rparr>
          [demo_item ''HLSS30.v2.0'' ''2023-05-30T10:30:00Z'', demo_partial_item,
           demo_item ''HLSS30.v2.0'' ''2023-06-09T10:30:00Z''])) = 2 \<and>
   ending (fetch_tile
       (scripted_env [Some [demo_item ''HLSS30.v2.0'' ''2023-05-30T10:30:00Z'', demo_partial_item,
                            demo_item ''HLSS30.v2.0'' ''2023-06-09T10:30:00Z'']] None)
       demo_state) = ExpectedEighteen 12 \<and>
   fetch_status (final (fetch_tile
       (scripted_env [Some [demo_item ''HLSS30.v2.0'' ''2023-05-30T10:30:00Z'', demo_partial_item,
                            demo_item ''HLSS30.v2.0'' ''2023-06-09T10:30:00Z'']] None)
       demo_state)) = expected_msg 12 \<and>
   written (fetch_tile
       (scripted_env [Some [demo_item ''HLSS30.v2.0'' ''2023-05-30T10:30:00Z'', demo_partial_item,
                            demo_item ''HLSS30.v2.0'' ''2023-06-09T10:30:00Z'']] None)
       demo_state) = [] \<and>
   tile_path (final (fetch_tile
       (scripted_env [Some [demo_item ''HLSS30.v2.0'' ''2023-05-30T10:30:00Z'', demo_partial_item,
                            demo_item ''HLSS30.v2.0'' ''2023-06-09T10:30:00Z'']] None)
       demo_state)) = ''/old.tif''"
proof -
  let ?I = "[demo_item ''HLSS30.v2.0'' ''2023-05-30T10:30:00Z'', demo_partial_item,
             demo_item ''HLSS30.v2.0'' ''2023-06-09T10:30:00Z'']"
  let ?E = "scripted_env [Some ?I] None"
  let ?s = "demo_state\<lparr>fetch_status := STARTING_MSG\<rparr>"
  let ?t = "\<lparr>ordinal = 738672, tod_us = 0, utcoffset = None\<rparr>"
  let ?T = "\<lparr>ordinal = 738672, tod_us = 0, utcoffset = Some (0::int)\<rparr>"
  let ?c = "[PostIntersects 0 0 738657 738687 20]"
  have l: "locate ?E demo_state = (?s, Some 0, Some 0, [])"
    by (simp add: locate_def safe_float_def demo_defs Let_def)
  have f: "search_hls_items ?E (length ([]::call list)) 0 0 (date_str ?s) 20 = (?c, Inr ?I)"
    by (simp add: search_hls_items_def search_window_def plus_days_def MAXORDINAL_def
        truthy_features_def demo_env_def scripted_env_def demo_state_def demo_dates_def Let_def)
  have i: "?I \<noteq> []"
    by simp
  have d: "fromisoformat ?E (date_str ?s) = Some ?t"
    by (simp add: demo_env_def scripted_env_def demo_state_def demo_dates_def)
  have h: "have_rasterio ?E"
    by (simp add: demo_env_def scripted_env_def)
  have u: "as_utc ?t = ?T"
    by (simp add: as_utc_def)
  let ?R = "[demo_partial_item, demo_item ''HLSS30.v2.0'' ''2023-05-30T10:30:00Z'',
             demo_item ''HLSS30.v2.0'' ''2023-06-09T10:30:00Z'']"
  have sel: "rank3 ?E ?T ?I = ?R"
    by (simp add: rank3_def rank_key_def dt_of_def replace_Z_def utc_us_def as_utc_def
        demo_defs)
  have two: "length (filter has_all_bands ?R) = 2"
    by (simp add: has_all_bands_def bands_for_collection_def S30_BANDS_def L30_BANDS_def
        demo_defs)
  have "\<exists>a. extract_bands ?E (tile_box 0 0) ?R (start_acc ?E ?s ([] @ ?c)) = Inr a"
    by (simp add: run_defs)
  then obtain a where x: "extract_bands ?E (tile_box 0 0) (rank3 ?E (as_utc ?t) ?I)
      (start_acc ?E ?s ([] @ ?c)) = Inr a"
    unfolding u sel by blast
  have n: "length (arrays a) = 12"
    using band_stack_complete [where env = ?E and s = demo_state and s' = ?s and lat = 0
        and lon = 0 and cs = "[]" and ?cs1.0 = ?c and items = ?I and t = ?t and a = a]
      l f i d h x two
    unfolding u sel by simp
  then have ne: "length (arrays a) \<noteq> 18"
    by simp
  have r: "fetch_tile ?E demo_state =
      \<lparr>final = ?s\<lparr>fetch_status := expected_msg (length (arrays a))\<rparr>,
       ending = ExpectedEighteen (length (arrays a)), calls = log a, written = []\<rparr>"
    using band_stack_complete [where env = ?E and s = demo_state and s' = ?s and lat = 0
        and lon = 0 and cs = "[]" and ?cs1.0 = ?c and items = ?I and t = ?t and a = a]
      l f i d h x ne
    by blast
  have x': "extract_bands ?E (tile_box 0 0) (rank3 ?E ?T ?I) (start_acc ?E ?s ?c) = Inr a"
    using x unfolding u by simp
  have p: "tile_path demo_state = ''/old.tif''"
    by (simp add: demo_state_def)
  have f': "search_hls_items ?E 0 0 0 ''2023-06-01'' 20 = (?c, Inr ?I)"
    using f by (simp add: demo_state_def)
  have two': "length (filter has_all_bands (rank3 ?E ?T ?I)) = 2"
    using two unfolding sel .
  show ?thesis
    using l f' x' n two' p unfolding r by simp
qed

text \<open>
  C4. A probe answered with 401 or 403 ends the inner loop at once, with the unauthorized
  status, its probe the last request in the log, no read and no later band attempted; the
  outer loop ends with it, so no later acquisition is attempted. For a whole call: if
  request \<open>i\<close> of the call is a denied probe, the call ends as unauthorized, request
  \<open>i\<close> is its last request (nothing is retried, nothing follows), the status is the
  unauthorized message, no file is written and the tile and preview paths are as they
  were. A call that ends as unauthorized has a denied probe as its last request.
\<close>

theorem unauthorized_aborts:
  "((http_probe env (length (log a)) h = Some 401 \<or> http_probe env (length (log a)) h = Some 403) \<longrightarrow>
      read_hrefs env box (h # hs) a =
        Inl (Unauthorized, a\<lparr>log := log a @ [Probe h], status := UNAUTHORIZED_MSG\<rparr>)) \<and>
   (collect_hrefs (assets it) (bands_for_collection (collection it)) [] = Inr hrefs \<and>
    read_hrefs env box hrefs a = Inl stop \<longrightarrow>
      extract_bands env box (it # items) a = Inl stop) \<and>
   (denied env (calls (fetch_tile env s)) i \<longrightarrow>
      ending (fetch_tile env s) = UnauthorizedAsset \<and>
      Suc i = length (calls (fetch_tile env s)) \<and>
      fetch_status (final (fetch_tile env s)) = UNAUTHORIZED_MSG \<and>
      written (fetch_tile env s) = [] \<and>
      tile_path (final (fetch_tile env s)) = tile_path s \<and>
      preview_png (final (fetch_tile env s)) = preview_png s) \<and>
   (ending (fetch_tile env s) = UnauthorizedAsset \<longrightarrow>
      denied env (calls (fetch_tile env s)) (length (calls (fetch_tile env s)) - 1))"
proof -
  have one: "(http_probe env (length (log a)) h = Some 401 \<or> http_probe env (length (log a)) h = Some 403) \<Longrightarrow>
      read_hrefs env box (h # hs) a =
        Inl (Unauthorized, a\<lparr>log := log a @ [Probe h], status := UNAUTHORIZED_MSG\<rparr>)"
    by (auto simp: Let_def)
  have two: "collect_hrefs (assets it) (bands_for_collection (collection it)) [] = Inr hrefs \<Longrightarrow>
    read_hrefs env box hrefs a = Inl stop \<Longrightarrow> extract_bands env box (it # items) a = Inl stop"
    by (cases hrefs) (simp_all add: Let_def)
  have three: "ending (fetch_tile env s) = UnauthorizedAsset \<Longrightarrow>
      tile_path (final (fetch_tile env s)) = tile_path s \<and>
      preview_png (final (fetch_tile env s)) = preview_png s"
    using fetch_tile_frame [of env s] by simp
  show ?thesis
    using one two three fetch_tile_denied [of env s i] by blast
qed

theorem unauthorized_aborts_witness:
  "denied (demo_env\<lparr>http_probe := (\<lambda>n h. if n = 5 then Some 403 else Some 206)\<rparr>)
     (calls (fetch_tile (demo_env\<lparr>http_probe := (\<lambda>n h. if n = 5 then Some 403 else Some 206)\<rparr>)
        demo_state)) 5 \<and>
   ending (fetch_tile (demo_env\<lparr>http_probe := (\<lambda>n h. if n = 5 then Some 403 else Some 206)\<rparr>)
        demo_state) = UnauthorizedAsset \<and>
   length (calls (fetch_tile (demo_env\<lparr>http_probe := (\<lambda>n h. if n = 5 then Some 403 else Some 206)\<rparr>)
        demo_state)) = 6 \<and>
   written (fetch_tile (demo_env\<lparr>http_probe := (\<lambda>n h. if n = 5 then Some 403 else Some 206)\<rparr>)
        demo_state) = [] \<and>
   tile_path (final (fetch_tile (demo_env\<lparr>http_probe := (\<lambda>n h. if n = 5 then Some 403 else Some 206)\<rparr>)
        demo_state)) = ''/old.tif''"
proof -
  let ?E = "demo_env\<lparr>http_probe := (\<lambda>n h. if n = 5 then Some 403 else Some 206)\<rparr>"
  have c: "calls (fetch_tile ?E demo_state) =
      [PostIntersects 0 0 738657 738687 20,
       Probe (Some ''https://lp/B02''),
       RasterOpen (Some ''https://lp/B02'')
         (- (500 / 111320), - (500 / 111320), 500 / 111320, 500 / 111320),
       Probe (Some ''https://lp/B03''),
       RasterOpen (Some ''https://lp/B03'')
         (- (500 / 111320), - (500 / 111320), 500 / 111320, 500 / 111320),
       Probe (Some ''https://lp/B04'')]"
    by (simp add: run_defs)
  have d: "denied ?E (calls (fetch_tile ?E demo_state)) 5"
    unfolding c by (simp add: denied_def)
  show ?thesis
    using unauthorized_aborts [of ?E _ _ _ _ _ _ _ _ demo_state 5] d
    by (simp add: demo_state_def)
qed

text \<open>
  C10. At every early \<^verbatim>\<open>return\<close> of \<^verbatim>\<open>fetch_tile\<close> (and at every exception it does not
  catch) the tile and preview paths are what they were before the call, and at an early
  return no file was opened for writing. The date and the address are never changed; the
  latitude and longitude texts change only in a call that began with the geocoder. The
  paths change only in a call that reaches its last line, after the raster file, whose
  name the tile path then carries, was written.
\<close>

theorem fetch_tile_failure_frame:
  "(early_return (ending (fetch_tile env s)) \<longrightarrow>
      tile_path (final (fetch_tile env s)) = tile_path s \<and>
      preview_png (final (fetch_tile env s)) = preview_png s \<and>
      written (fetch_tile env s) = []) \<and>
   (ending (fetch_tile env s) \<noteq> TileReady \<longrightarrow>
      tile_path (final (fetch_tile env s)) = tile_path s \<and>
      preview_png (final (fetch_tile env s)) = preview_png s) \<and>
   date_str (final (fetch_tile env s)) = date_str s \<and>
   input_address (final (fetch_tile env s)) = input_address s \<and>
   (input_lat (final (fetch_tile env s)) \<noteq> input_lat s \<or>
    input_lon (final (fetch_tile env s)) \<noteq> input_lon s \<longrightarrow>
      (\<exists>rest. calls (fetch_tile env s) = Geocode (py_strip env (input_address s)) # rest)) \<and>
   (tile_path (final (fetch_tile env s)) \<noteq> tile_path s \<or>
    preview_png (final (fetch_tile env s)) \<noteq> preview_png s \<longrightarrow>
      ending (fetch_tile env s) = TileReady \<and>
      (\<exists>out_tif rest. written (fetch_tile env s) = out_tif # rest \<and>
         tile_path (final (fetch_tile env s)) = ''/'' @ basename out_tif))"
proof -
  have "early_return (ending (fetch_tile env s)) \<Longrightarrow> ending (fetch_tile env s) \<noteq> TileReady"
    by (cases "ending (fetch_tile env s)") simp_all
  then show ?thesis
    using fetch_tile_frame [of env s] by blast
qed

theorem fetch_tile_failure_frame_witness:
  "early_return (ending (fetch_tile demo_env (demo_state\<lparr>date_str := ''2099-01-01''\<rparr>))) \<and>
   ending (fetch_tile demo_env (demo_state\<lparr>date_str := ''2099-01-01''\<rparr>)) = NoItemsFound \<and>
   tile_path (final (fetch_tile demo_env (demo_state\<lparr>date_str := ''2099-01-01''\<rparr>))) = ''/old.tif'' \<and>
   preview_png (final (fetch_tile demo_env (demo_state\<lparr>date_str := ''2099-01-01''\<rparr>))) = ''/old.png'' \<and>
   written (fetch_tile demo_env (demo_state\<lparr>date_str := ''2099-01-01''\<rparr>)) = []"
proof -
  let ?s = "demo_state\<lparr>date_str := ''2099-01-01''\<rparr>"
  have e: "ending (fetch_tile demo_env ?s) = NoItemsFound"
    by (simp add: fetch_tile_def locate_def safe_float_def ascii_strip_def fetch_at_def
        search_hls_items_def search_window_def plus_days_def MAXORDINAL_def demo_defs Let_def)
  then have er: "early_return (ending (fetch_tile demo_env ?s))"
    by simp
  have "tile_path (final (fetch_tile demo_env ?s)) = tile_path ?s \<and>
      preview_png (final (fetch_tile demo_env ?s)) = preview_png ?s \<and>
      written (fetch_tile demo_env ?s) = []"
    using fetch_tile_failure_frame [of demo_env ?s] er by blast
  moreover have "tile_path ?s = ''/old.tif''" and "preview_png ?s = ''/old.png''"
    by (simp_all add: demo_state_def)
  ultimately show ?thesis
    using e er by simp
qed

text \<open>
  C9, as the code has it. There is no range check. When both texts parse as floats
  (\<^verbatim>\<open>_safe_float\<close>), the pipeline runs for exactly that pair, without a request of the
  Locator. Otherwise, when the address is not blank (\<^verbatim>\<open>str.strip()\<close> leaves something)
  and the geocoder answers, it runs for the geocoder's pair. It ends with "Provide lat/lon
  or a valid address." exactly when neither gives a pair. The pair is the point of the
  first search request of the run.
\<close>

theorem coordinate_is_parsed_text:
  "(safe_float env (input_lat s) = Some lat \<and> safe_float env (input_lon s) = Some lon \<longrightarrow>
      locate env s = (s\<lparr>fetch_status := STARTING_MSG\<rparr>, Some lat, Some lon, []) \<and>
      fetch_tile env s = fetch_at env (s\<lparr>fetch_status := STARTING_MSG\<rparr>) [] lat lon) \<and>
   ((safe_float env (input_lat s) = None \<or> safe_float env (input_lon s) = None) \<and>
    py_strip env (input_address s) \<noteq> [] \<and>
    geocode_address env (py_strip env (input_address s)) = Some (lat, lon) \<longrightarrow>
      fetch_tile env s =
        fetch_at env
          (s\<lparr>fetch_status := GEOCODING_MSG, input_lat := fmt_6f env lat,
             input_lon := fmt_6f env lon\<rparr>)
          [Geocode (py_strip env (input_address s))] lat lon) \<and>
   (ending (fetch_tile env s) = ProvideLatLon \<longleftrightarrow>
      (safe_float env (input_lat s) = None \<or> safe_float env (input_lon s) = None) \<and>
      (py_strip env (input_address s) = [] \<or>
       geocode_address env (py_strip env (input_address s)) = None)) \<and>
   (search_window env (date_str s') = Inr (a, b) \<and> a \<le> b \<longrightarrow>
      (\<exists>rest. calls (fetch_at env s' cs lat lon) = cs @ PostIntersects lon lat a b 20 # rest))"
proof -
  have direct: "locate env s = (s\<lparr>fetch_status := STARTING_MSG\<rparr>, Some lat, Some lon, [])"
    if "safe_float env (input_lat s) = Some lat" and "safe_float env (input_lon s) = Some lon"
    using that by (simp add: locate_def Let_def)
  have geo: "locate env s =
      (s\<lparr>fetch_status := GEOCODING_MSG, input_lat := fmt_6f env lat, input_lon := fmt_6f env lon\<rparr>,
       Some lat, Some lon, [Geocode (py_strip env (input_address s))])"
    if "safe_float env (input_lat s) = None \<or> safe_float env (input_lon s) = None"
      and "py_strip env (input_address s) \<noteq> []"
      and "geocode_address env (py_strip env (input_address s)) = Some (lat, lon)"
    using that by (auto simp: locate_def Let_def)
  have none: "ending (fetch_tile env s) = ProvideLatLon \<longleftrightarrow>
      (safe_float env (input_lat s) = None \<or> safe_float env (input_lon s) = None) \<and>
      (py_strip env (input_address s) = [] \<or>
       geocode_address env (py_strip env (input_address s)) = None)"
    by (auto simp: fetch_tile_def locate_def Let_def fetch_at_not_provide
        split: option.splits prod.splits)
  have used: "\<exists>rest. calls (fetch_at env s' cs lat lon) = cs @ PostIntersects lon lat a b 20 # rest"
    if w: "search_window env (date_str s') = Inr (a, b)" and o: "a \<le> b"
  proof -
    obtain rest where "fst (search_hls_items env (length cs) lat lon (date_str s') 20) =
        PostIntersects lon lat a b 20 # rest"
      using search_first_call [OF w o] by blast
    then have "prefix (cs @ PostIntersects lon lat a b 20 # rest) (calls (fetch_at env s' cs lat lon))"
      using fetch_at_calls [of cs env lat lon s'] by simp
    then show ?thesis
      by (auto simp: prefix_def)
  qed
  show ?thesis
    using direct geo none used by (simp add: fetch_tile_def)
qed

text \<open>
  In the sample world: the texts \<^verbatim>\<open>0\<close> and \<^verbatim>\<open>0\<close> are used as they parse, with no
  request of the Locator; with no coordinate typed, the address \<^verbatim>\<open>Paris\<close> (typed with
  spaces around it) is geocoded and the run goes on at the geocoder's pair; a blank
  address, or one the geocoder does not know, ends the run at the Locator.
\<close>

theorem coordinate_is_parsed_text_witness:
  "safe_float demo_env (input_lat demo_state) = Some 0 \<and>
   safe_float demo_env (input_lon demo_state) = Some 0 \<and>
   locate demo_env demo_state = (demo_state\<lparr>fetch_status := STARTING_MSG\<rparr>, Some 0, Some 0, []) \<and>
   fetch_tile demo_env demo_state =
     fetch_at demo_env (demo_state\<lparr>fetch_status := STARTING_MSG\<rparr>) [] 0 0 \<and>
   safe_float demo_env (input_lat address_state) = None \<and>
   py_strip demo_env (input_address address_state) = ''Paris'' \<and>
   geocode_address demo_env ''Paris'' = Some (488566 / 10000, 23522 / 10000) \<and>
   fetch_tile demo_env address_state =
     fetch_at demo_env
       (address_state\<lparr>fetch_status := GEOCODING_MSG, input_lat := ''48.856600'',
                       input_lon := ''2.352200''\<rparr>)
       [Geocode ''Paris''] (488566 / 10000) (23522 / 10000) \<and>
   ending (fetch_tile demo_env address_state) \<noteq> ProvideLatLon \<and>
   py_strip demo_env (input_address (address_state\<lparr>input_address := ''  ''\<rparr>)) = [] \<and>
   ending (fetch_tile demo_env (address_state\<lparr>input_address := ''  ''\<rparr>)) = ProvideLatLon \<and>
   geocode_address demo_env ''Atlantis'' = None \<and>
   ending (fetch_tile demo_env (address_state\<lparr>input_address := ''Atlantis''\<rparr>)) = ProvideLatLon \<and>
   search_window demo_env (date_str address_state) = Inr (738657, 738687) \<and>
   (\<exists>rest. calls (fetch_at demo_env address_state [Geocode ''Paris''] (488566 / 10000)
                     (23522 / 10000)) =
      [Geocode ''Paris''] @ PostIntersects (23522 / 10000) (488566 / 10000) 738657 738687 20 # rest)"
proof -
  let ?blank = "address_state\<lparr>input_address := ''  ''\<rparr>"
  let ?nowhere = "address_state\<lparr>input_address := ''Atlantis''\<rparr>"
  have p: "safe_float demo_env (input_lat demo_state) = Some 0"
      "safe_float demo_env (input_lon demo_state) = Some 0"
    by (simp_all add: safe_float_def demo_defs)
  have n: "safe_float demo_env (input_lat address_state) = None"
      "safe_float demo_env (input_lat ?blank) = None"
      "safe_float demo_env (input_lat ?nowhere) = None"
    by (simp_all add: safe_float_def address_state_def demo_defs)
  have a: "py_strip demo_env (input_address address_state) = ''Paris''"
      "py_strip demo_env (input_address ?blank) = []"
      "py_strip demo_env (input_address ?nowhere) = ''Atlantis''"
    by (simp_all add: address_state_def demo_defs ascii_strip_def is_space_def)
  have g: "geocode_address demo_env ''Paris'' = Some (488566 / 10000, 23522 / 10000)"
      "geocode_address demo_env ''Atlantis'' = None"
    by (simp_all add: geocode_address_def demo_env_def)
  have f: "fmt_6f demo_env (488566 / 10000) = ''48.856600''"
      "fmt_6f demo_env (23522 / 10000) = ''2.352200''"
    by (simp_all add: demo_env_def)
  have w: "search_window demo_env (date_str address_state) = Inr (738657, 738687)"
    by (simp add: search_window_def plus_days_def MAXORDINAL_def address_state_def demo_defs
        Let_def)
  have direct: "locate demo_env demo_state =
        (demo_state\<lparr>fetch_status := STARTING_MSG\<rparr>, Some 0, Some 0, []) \<and>
      fetch_tile demo_env demo_state =
        fetch_at demo_env (demo_state\<lparr>fetch_status := STARTING_MSG\<rparr>) [] 0 0"
    using coordinate_is_parsed_text [of demo_env demo_state 0 0] p by blast
  have geo: "fetch_tile demo_env address_state =
      fetch_at demo_env
        (address_state\<lparr>fetch_status := GEOCODING_MSG, input_lat := ''48.856600'',
                        input_lon := ''2.352200''\<rparr>)
        [Geocode ''Paris''] (488566 / 10000) (23522 / 10000)"
    using coordinate_is_parsed_text [of demo_env address_state "488566 / 10000" "23522 / 10000"]
      n(1) a(1) g(1) f
    by simp
  have found: "ending (fetch_tile demo_env address_state) \<noteq> ProvideLatLon"
    using coordinate_is_parsed_text [of demo_env address_state] n(1) a(1) g(1)
    by simp
  have blank: "ending (fetch_tile demo_env ?blank) = ProvideLatLon"
    using coordinate_is_parsed_text [of demo_env ?blank] n(2) a(2) by simp
  have nowhere: "ending (fetch_tile demo_env ?nowhere) = ProvideLatLon"
    using coordinate_is_parsed_text [of demo_env ?nowhere] n(3) a(3) g(2) by simp
  have used: "\<exists>rest. calls (fetch_at demo_env address_state [Geocode ''Paris''] (488566 / 10000)
                     (23522 / 10000)) =
      [Geocode ''Paris''] @ PostIntersects (23522 / 10000) (488566 / 10000) 738657 738687 20 # rest"
    using coordinate_is_parsed_text [where env = demo_env and s' = address_state
        and a = 738657 and b = 738687 and cs = "[Geocode ''Paris'']"
        and lat = "488566 / 10000" and lon = "23522 / 10000"] w
    by simp
  show ?thesis
    using p n(1) a(1,2) g direct geo found blank nowhere w used by simp
qed

text \<open>
  C9 as stated fails: the texts \<^verbatim>\<open>100\<close> and \<^verbatim>\<open>200\<close> parse as floats, so the pipeline
  runs for latitude 100 and longitude 200: it searches the catalog at that point and, in
  the sample world, writes the tile and its preview.
\<close>

theorem coordinate_out_of_range_is_used:
  "safe_float demo_env ''100'' = Some 100 \<and> safe_float demo_env ''200'' = Some 200 \<and>
   \<not> (100 \<le> (90::real)) \<and> \<not> (200 \<le> (180::real)) \<and>
   ending (fetch_tile demo_env (demo_state\<lparr>input_lat := ''100'', input_lon := ''200''\<rparr>)) = TileReady \<and>
   take 1 (calls (fetch_tile demo_env (demo_state\<lparr>input_lat := ''100'', input_lon := ''200''\<rparr>))) =
     [PostIntersects 200 100 738657 738687 20] \<and>
   written (fetch_tile demo_env (demo_state\<lparr>input_lat := ''100'', input_lon := ''200''\<rparr>)) =
     [''assets/hls_tile_100.00000_200.00000_2023-06-01.tif'',
      ''assets/hls_tile_100.00000_200.00000_2023-06-01.png'']"
  by (simp add: run_defs stretch_sample)

end
